theory Spec2Isabelle
  imports Main "HOL-Library.AList"
begin

section \<open>The HTTP session router: data model (src/mcp-server.ts)\<close>

text \<open>
  Session identifiers are the strings of the \<open>Mcp-Session-Id\<close> header. A transport
  (channel) and a protocol server (handler) are objects of the SDK; the model keeps
  their identities, handed out in order of construction, and records every call made
  on them in a log.
\<close>

type_synonym sid = string
type_synonym tid = nat
type_synonym hid = nat

datatype rpcid = IdNum int | IdStr string

text \<open>The decoded body \<open>{method, params, id}\<close>, as fields \<open>rmethod\<close>, \<open>params\<close>
  and \<open>rid\<close>; a field that is absent is \<open>None\<close>.\<close>

record request =
  rmethod :: "string option"
  rid :: "rpcid option"
  params :: string

text \<open>A thrown value: an \<open>Error\<close> with its message, or anything else.\<close>

datatype exn = Error string | NonError

text \<open>
  The response object handed to \<open>transport.handleRequest\<close>: the real one of the HTTP
  call, or the shim built by \<open>createNullRes\<close>, whose \<open>write\<close>, \<open>end\<close>, \<open>json\<close> and
  \<open>send\<close> only set local flags and never reach the socket.
\<close>

datatype sink = RealRes | NullRes

text \<open>
  The message handed to \<open>transport.handleRequest\<close>: the client's own request, or the
  synthesized \<open>initialize\<close> with id \<open>__compat_init__\<close> for one protocol version.
\<close>

datatype message = ClientMsg request | CompatInit string

datatype body =
    PingResult "rpcid option" "sid option"
  | RpcError int string "sid option" "rpcid option"
  | SessionClosed
  | SessionNotFound
  | Opaque string

record response =
  status :: nat
  sessionHeader :: "sid option"
  body :: body

datatype event =
    NewTransport tid sid
  | NewServer hid "sid option"
  | Connect hid tid
  | HandleRequest tid "sid option" sink message
  | Close tid

text \<open>
  What one call of \<open>transport.handleRequest\<close> does, as the router sees it: what it wrote
  to the response object it was given (if anything) and what it threw (if anything).
\<close>

record outcome =
  wrote :: "response option"
  threw :: "exn option"

text \<open>
  The collaborators of one HTTP call that are not code of this repository: the SDK's
  \<open>isInitializeRequest\<close>, \<open>crypto.randomUUID\<close>, \<open>Server.connect\<close> (\<open>Some x\<close> when it
  throws \<open>x\<close>), \<open>transport.handleRequest\<close>, and the clock.
\<close>

record env =
  isInitializeRequest :: "request \<Rightarrow> bool"
  randomUUID :: sid
  connect :: "exn option"
  handleRequest :: "sink \<Rightarrow> message \<Rightarrow> outcome"
  now :: int

text \<open>
  Modelled from the spec: the Session record of \<open>SessionManager\<close>
  (src/utils/session-manager.ts is not among the sources). Section 3: identifier,
  creation timestamp, last-activity timestamp, cumulative request count.
\<close>

record session =
  ident :: sid
  createdAt :: int
  lastActivity :: int
  requestCount :: nat

text \<open>
  The fields of class \<open>MCPHttpServer\<close> that the router reads and writes. \<open>transports\<close>
  is a JavaScript \<open>Map\<close>, kept in insertion order. \<open>log\<close> is the history of calls made
  on SDK objects; it is not a field of the class.
\<close>

record MCPHttpServer =
  transports :: "(sid \<times> tid) list"
  connectionCount :: int
  isRunning :: bool
  mcpServer :: "hid option"
  mcpServerPool :: "(sid \<rightharpoonup> hid) option"
  sessionManager :: "(sid \<rightharpoonup> session) option"
  log :: "event list"

text \<open>
  How the \<open>try\<close> block of \<open>handleMCPRequest\<close> ends: it throws (with what had been
  written to the real response by then) or it returns (with what was written).
\<close>

datatype result = Threw exn "response option" | Done "response option"

text \<open>The three variables the branches of \<open>handleMCPRequest\<close> assign.\<close>

record selection =
  transport :: "tid option"
  effectiveSessionId :: "sid option"
  requireInitializeNotice :: bool

subsection \<open>Helpers\<close>

text \<open>JavaScript truthiness of \<open>string | undefined\<close>: the empty string is falsy.\<close>

fun truthy :: "sid option \<Rightarrow> bool" where
  "truthy None = False"
| "truthy (Some i) = (i \<noteq> [])"

fun isNewTransport :: "event \<Rightarrow> bool" where
  "isNewTransport (NewTransport t i) = True"
| "isNewTransport e = False"

fun isNewServer :: "event \<Rightarrow> bool" where
  "isNewServer (NewServer h i) = True"
| "isNewServer e = False"

fun isHandleRequest :: "event \<Rightarrow> bool" where
  "isHandleRequest (HandleRequest t i k m) = True"
| "isHandleRequest e = False"

definition transportsConstructed :: "event list \<Rightarrow> nat" where
  "transportsConstructed lg = length (filter isNewTransport lg)"

definition serversConstructed :: "event list \<Rightarrow> nat" where
  "serversConstructed lg = length (filter isNewServer lg)"

definition has :: "(sid \<times> tid) list \<Rightarrow> sid \<Rightarrow> bool" where
  "has ts i = (map_of ts i \<noteq> None)"

definition isPing :: "request \<Rightarrow> bool" where
  "isPing rq = (rmethod rq = Some ''session/ping'' \<or> rmethod rq = Some ''status/ping'')"

subsection \<open>Session Registry and Protocol Handler Pool\<close>

text \<open>
  Modelled from the spec: \<open>SessionManager.touchSession\<close> (src/utils/session-manager.ts is
  not among the sources). Section 4.1: \<open>touch(id)\<close> updates the last-activity timestamp
  and is a no-op, not an error, if the session does not exist.
\<close>

definition touchSession :: "int \<Rightarrow> sid \<Rightarrow> (sid \<rightharpoonup> session) \<Rightarrow> (sid \<rightharpoonup> session)" where
  "touchSession t i m =
     (case m i of None \<Rightarrow> m | Some s \<Rightarrow> m(i \<mapsto> s\<lparr>lastActivity := t\<rparr>))"

text \<open>
  Modelled from the spec: \<open>SessionManager.getOrCreateSession\<close> (src/utils/session-manager.ts
  is not among the sources). Section 4.1: \<open>createOrGet(id)\<close> is idempotent; it returns the
  existing record if present, else creates one with zero activity count.
\<close>

definition getOrCreateSession :: "int \<Rightarrow> sid \<Rightarrow> (sid \<rightharpoonup> session) \<Rightarrow> (sid \<rightharpoonup> session)" where
  "getOrCreateSession t i m =
     (case m i of
        Some s \<Rightarrow> m
      | None \<Rightarrow> m(i \<mapsto> \<lparr>ident = i, createdAt = t, lastActivity = t, requestCount = 0\<rparr>))"

text \<open>
  Modelled from the spec: \<open>MCPServerPool.getOrCreateServer\<close> (src/utils/mcp-server-pool.ts
  is not among the sources). Section 4.3: \<open>getOrCreate(id)\<close> returns the cached handler
  for \<open>id\<close>, constructing and registering one if absent.
\<close>

definition getOrCreateServer ::
  "sid \<Rightarrow> (sid \<rightharpoonup> hid) \<Rightarrow> event list \<Rightarrow> hid \<times> (sid \<rightharpoonup> hid) \<times> event list" where
  "getOrCreateServer i pool lg =
     (case pool i of
        Some h \<Rightarrow> (h, pool, lg)
      | None \<Rightarrow>
          (let h = serversConstructed lg
           in (h, pool(i \<mapsto> h), lg @ [NewServer h (Some i)])))"

text \<open>\<open>if (this.sessionManager) this.sessionManager.touchSession(sessionId)\<close>\<close>

definition touch :: "env \<Rightarrow> sid \<Rightarrow> MCPHttpServer \<Rightarrow> MCPHttpServer" where
  "touch e i s =
     (case sessionManager s of
        None \<Rightarrow> s
      | Some m \<Rightarrow> s\<lparr>sessionManager := Some (touchSession (now e) i m)\<rparr>)"

text \<open>\<open>if (this.sessionManager) this.sessionManager.getOrCreateSession(effectiveSessionId)\<close>\<close>

definition register :: "env \<Rightarrow> sid \<Rightarrow> MCPHttpServer \<Rightarrow> MCPHttpServer" where
  "register e i s =
     (case sessionManager s of
        None \<Rightarrow> s
      | Some m \<Rightarrow> s\<lparr>sessionManager := Some (getOrCreateSession (now e) i m)\<rparr>)"

text \<open>\<open>this.mcpServerPool.getOrCreateServer(id)\<close> on the pool \<open>pool\<close> of state \<open>s\<close>.\<close>

definition poolServer :: "sid \<Rightarrow> (sid \<rightharpoonup> hid) \<Rightarrow> MCPHttpServer \<Rightarrow> hid \<times> MCPHttpServer" where
  "poolServer i pool s =
     (case getOrCreateServer i pool (log s) of
        (h, pool', lg') \<Rightarrow> (h, s\<lparr>mcpServerPool := Some pool', log := lg'\<rparr>))"


text \<open>\<open>sessionId && this.transports.has(sessionId)\<close>, then \<open>this.transports.get(sessionId)\<close>.\<close>

definition live :: "(sid \<times> tid) list \<Rightarrow> sid option \<Rightarrow> tid option" where
  "live ts sessionId =
     (case sessionId of
        None \<Rightarrow> None
      | Some i \<Rightarrow> if i = [] then None else map_of ts i)"

section \<open>The request router (handleMCPRequest)\<close>

text \<open>
  The block every creating branch repeats:
  \<^verbatim>\<open>transport = new StreamableHTTPServerTransport({sessionIdGenerator: ...});
  await mcpServer.connect(transport);
  this.transports.set(effectiveSessionId, transport);
  attachTransportHandlers(effectiveSessionId, transport);
  this.connectionCount++;\<close>
  In non-concurrent mode \<open>mcpServer\<close> is \<open>this.mcpServer!\<close>; were it undefined, the call
  of \<open>connect\<close> throws a TypeError. The close and error callbacks that
  \<open>attachTransportHandlers\<close> registers are the entry points \<open>onTransportClose\<close> and
  \<open>onTransportError\<close> below.
\<close>

definition connectAndBind ::
  "env \<Rightarrow> hid option \<Rightarrow> sid \<Rightarrow> MCPHttpServer \<Rightarrow> (exn + tid) \<times> MCPHttpServer" where
  "connectAndBind e srv i s =
     (let t = transportsConstructed (log s);
          s1 = s\<lparr>log := log s @ [NewTransport t i]\<rparr>
      in case srv of
           None \<Rightarrow> (Inl (Error ''Cannot read properties of undefined (reading connect)''), s1)
         | Some h \<Rightarrow>
             (let s2 = s1\<lparr>log := log s1 @ [Connect h t]\<rparr>
              in case connect e of
                   Some x \<Rightarrow> (Inl x, s2)
                 | None \<Rightarrow>
                     (Inr t, s2\<lparr>transports := AList.update i t (transports s2),
                                connectionCount := connectionCount s2 + 1\<rparr>)))"

definition selected :: "tid option \<Rightarrow> sid \<Rightarrow> bool \<Rightarrow> selection" where
  "selected t i flag =
     \<lparr>transport = t, effectiveSessionId = Some i, requireInitializeNotice = flag\<rparr>"

text \<open>
  A creating branch: obtain the server, connect and bind a new transport under \<open>i\<close>,
  then (where the branch does so) register the session; \<open>flag\<close> is the value the branch
  leaves in \<open>requireInitializeNotice\<close>.
\<close>

definition createBranch ::
  "env \<Rightarrow> hid option \<Rightarrow> sid \<Rightarrow> bool \<Rightarrow> bool \<Rightarrow> MCPHttpServer \<Rightarrow> (exn + selection) \<times> MCPHttpServer" where
  "createBranch e srv i registerAfter flag s =
     (case connectAndBind e srv i s of
        (Inl x, s1) \<Rightarrow> (Inl x, s1)
      | (Inr t, s1) \<Rightarrow>
          (Inr (selected (Some t) i flag), if registerAfter then register e i s1 else s1))"

text \<open>
  Lines 570-649: concurrent mode, \<open>this.mcpServerPool\<close> is defined. The source's chain
  \<^verbatim>\<open>if (sessionId && this.transports.has(sessionId)) ...
  else if (sessionId && this.sessionManager) ... (initialize or not)
  else if (!sessionId && isInitializeRequest(request)) ...
  else ... (newSessionId = sessionId ?? randomUUID())\<close>
  is written out once for a header that is present (\<open>Some i\<close>, possibly the empty
  string, which is falsy but not nullish) and once for a header that is absent.
\<close>

definition selectConcurrent ::
  "env \<Rightarrow> (sid \<rightharpoonup> hid) \<Rightarrow> sid option \<Rightarrow> request \<Rightarrow> MCPHttpServer \<Rightarrow> (exn + selection) \<times> MCPHttpServer" where
  "selectConcurrent e pool sessionId rq s =
     (case sessionId of
        Some i \<Rightarrow>
          (if truthy sessionId \<and> has (transports s) i then
             (case poolServer i pool s of
                (h, s1) \<Rightarrow> (Inr (selected (map_of (transports s) i) i False), touch e i s1))
           else if truthy sessionId \<and> sessionManager s \<noteq> None then
             (if isInitializeRequest e rq then
                (case poolServer i pool (register e i s) of
                   (h, s1) \<Rightarrow> createBranch e (Some h) i False False s1)
              else
                (case poolServer i pool s of
                   (h, s1) \<Rightarrow> createBranch e (Some h) i False True s1))
           else if \<not> truthy sessionId \<and> isInitializeRequest e rq then
             (case poolServer (randomUUID e) pool s of
                (h, s1) \<Rightarrow> createBranch e (Some h) (randomUUID e) True False s1)
           else
             (case poolServer i pool s of
                (h, s1) \<Rightarrow> createBranch e (Some h) i False True s1))
      | None \<Rightarrow>
          (if isInitializeRequest e rq then
             (case poolServer (randomUUID e) pool s of
                (h, s1) \<Rightarrow> createBranch e (Some h) (randomUUID e) True False s1)
           else
             (case poolServer (randomUUID e) pool s of
                (h, s1) \<Rightarrow> createBranch e (Some h) (randomUUID e) False True s1)))"

text \<open>
  Lines 650-700: non-concurrent mode, the single \<open>this.mcpServer\<close>. The chain is
  \<^verbatim>\<open>if (sessionId && this.transports.has(sessionId)) ...
  else if (sessionId) ... (initialize or not)
  else if (!sessionId && isInitializeRequest(request)) ...
  else ... (effectiveSessionId = randomUUID())\<close>\<close>

definition selectSingle ::
  "env \<Rightarrow> sid option \<Rightarrow> request \<Rightarrow> MCPHttpServer \<Rightarrow> (exn + selection) \<times> MCPHttpServer" where
  "selectSingle e sessionId rq s =
     (case sessionId of
        Some i \<Rightarrow>
          (if truthy sessionId \<and> has (transports s) i then
             (Inr (selected (map_of (transports s) i) i False), touch e i s)
           else if truthy sessionId then
             (if isInitializeRequest e rq then createBranch e (mcpServer s) i False False s
              else createBranch e (mcpServer s) i False True s)
           else if isInitializeRequest e rq then
             createBranch e (mcpServer s) (randomUUID e) True False s
           else createBranch e (mcpServer s) (randomUUID e) True True s)
      | None \<Rightarrow>
          (if isInitializeRequest e rq then
             createBranch e (mcpServer s) (randomUUID e) True False s
           else createBranch e (mcpServer s) (randomUUID e) True True s))"

definition selectTransport ::
  "env \<Rightarrow> sid option \<Rightarrow> request \<Rightarrow> MCPHttpServer \<Rightarrow> (exn + selection) \<times> MCPHttpServer" where
  "selectTransport e sessionId rq s =
     (case mcpServerPool s of
        Some pool \<Rightarrow> selectConcurrent e pool sessionId rq s
      | None \<Rightarrow> selectSingle e sessionId rq s)"

text \<open>Lines 704-742: the compatibility initialize.\<close>

definition versionsToTry :: "string list" where
  "versionsToTry = [''2025-06-18'', ''2024-11-05'', ''1.0'']"

text \<open>
  The \<open>for\<close> loop over \<open>versionsToTry\<close>: each round calls
  \<open>transport.handleRequest(compatReq, createNullRes(), initReq)\<close>; a round that does not
  throw sets \<open>initOk\<close> and breaks, a round that throws is caught and logged. The result
  is \<open>initOk\<close> and the calls made.
\<close>

fun compatLoop :: "env \<Rightarrow> tid \<Rightarrow> sid option \<Rightarrow> string list \<Rightarrow> bool \<times> event list" where
  "compatLoop e t i [] = (False, [])"
| "compatLoop e t i (ver # vs) =
     (case threw (handleRequest e NullRes (CompatInit ver)) of
        None \<Rightarrow> (True, [HandleRequest t i NullRes (CompatInit ver)])
      | Some x \<Rightarrow>
          (case compatLoop e t i vs of
             (initOk, evs) \<Rightarrow> (initOk, HandleRequest t i NullRes (CompatInit ver) # evs)))"

definition compatInitialize ::
  "env \<Rightarrow> request \<Rightarrow> selection \<Rightarrow> MCPHttpServer \<Rightarrow> selection \<times> MCPHttpServer" where
  "compatInitialize e rq sel s =
     (case transport sel of
        None \<Rightarrow> (sel, s)
      | Some t \<Rightarrow>
          (if requireInitializeNotice sel \<and> \<not> isInitializeRequest e rq then
             (case compatLoop e t (effectiveSessionId sel) versionsToTry of
                (initOk, evs) \<Rightarrow>
                  (sel\<lparr>requireInitializeNotice := False\<rparr>, s\<lparr>log := log s @ evs\<rparr>))
           else (sel, s)))"

text \<open>Line 776: \<open>await transport.handleRequest(req, res, request)\<close>.\<close>

definition forward ::
  "env \<Rightarrow> tid \<Rightarrow> sid option \<Rightarrow> request \<Rightarrow> MCPHttpServer \<Rightarrow> result \<times> MCPHttpServer" where
  "forward e t sessionId rq s =
     (let out = handleRequest e RealRes (ClientMsg rq);
          s1 = s\<lparr>log := log s @ [HandleRequest t sessionId RealRes (ClientMsg rq)]\<rparr>
      in case threw out of
           None \<Rightarrow> (Done (wrote out), s1)
         | Some x \<Rightarrow> (Threw x (wrote out), s1))"

definition notInitialized :: "sid \<Rightarrow> rpcid option \<Rightarrow> response" where
  "notInitialized i n =
     \<lparr>status = 400, sessionHeader = Some i,
      body = RpcError (- 32000) ''Bad Request: Server not initialized'' (Some i) n\<rparr>"

definition noTransport :: "sid option \<Rightarrow> rpcid option \<Rightarrow> response" where
  "noTransport i n =
     \<lparr>status = 200, sessionHeader = (if truthy i then i else None),
      body = RpcError (- 32001) ''No active transport/session. Please initialize and retry.''
               (if truthy i then i else None) n\<rparr>"

text \<open>
  Lines 744-776. \<open>res.setHeader\<close> throws on an undefined value, which is what an
  unassigned \<open>effectiveSessionId\<close> would be.
\<close>

definition respond ::
  "env \<Rightarrow> sid option \<Rightarrow> request \<Rightarrow> selection \<Rightarrow> MCPHttpServer \<Rightarrow> result \<times> MCPHttpServer" where
  "respond e sessionId rq sel s =
     (if requireInitializeNotice sel \<and> \<not> isInitializeRequest e rq then
        (case effectiveSessionId sel of
           None \<Rightarrow> (Threw (Error ''Invalid value undefined for header Mcp-Session-Id'') None, s)
         | Some i \<Rightarrow> (Done (Some (notInitialized i (rid rq))), s))
      else
        (case transport sel of
           None \<Rightarrow> (Done (Some (noTransport (effectiveSessionId sel) (rid rq))), s)
         | Some t \<Rightarrow> forward e t sessionId rq s))"

text \<open>Lines 497-507: the keepalive fast path.\<close>

definition ping :: "env \<Rightarrow> sid option \<Rightarrow> request \<Rightarrow> MCPHttpServer \<Rightarrow> result \<times> MCPHttpServer" where
  "ping e sessionId rq s =
     (Done (Some \<lparr>status = 200,
                  sessionHeader = (if truthy sessionId then sessionId else None),
                  body = PingResult (rid rq) (if truthy sessionId then sessionId else None)\<rparr>),
      case sessionId of
        None \<Rightarrow> s
      | Some i \<Rightarrow> if truthy sessionId then touch e i s else s)"

text \<open>
  The \<open>try\<close> block. An undefined body makes \<open>request.method\<close> on line 496 throw.
\<close>

definition tryBlock ::
  "env \<Rightarrow> sid option \<Rightarrow> request option \<Rightarrow> MCPHttpServer \<Rightarrow> result \<times> MCPHttpServer" where
  "tryBlock e sessionId reqBody s =
     (case reqBody of
        None \<Rightarrow> (Threw (Error ''Cannot read properties of undefined (reading method)'') None, s)
      | Some rq \<Rightarrow>
          (if isPing rq then ping e sessionId rq s
           else
             (case selectTransport e sessionId rq s of
                (Inl x, s1) \<Rightarrow> (Threw x None, s1)
              | (Inr sel, s1) \<Rightarrow>
                  (case compatInitialize e rq sel s1 of
                     (sel', s2) \<Rightarrow> respond e sessionId rq sel' s2))))"

definition internalError :: "exn \<Rightarrow> response" where
  "internalError x =
     \<lparr>status = 500, sessionHeader = None,
      body = RpcError (- 32603)
               (''Internal error: '' @ (case x of Error m \<Rightarrow> m | NonError \<Rightarrow> ''Unknown error''))
               None None\<rparr>"

text \<open>The \<open>catch\<close> block: a 500 unless \<open>res.headersSent\<close>.\<close>

fun catchError :: "result \<Rightarrow> response option" where
  "catchError (Done r) = r"
| "catchError (Threw x None) = Some (internalError x)"
| "catchError (Threw x (Some r)) = Some r"

definition handleMCPRequest ::
  "env \<Rightarrow> sid option \<Rightarrow> request option \<Rightarrow> MCPHttpServer \<Rightarrow> response option \<times> MCPHttpServer" where
  "handleMCPRequest e sessionId reqBody s =
     (case tryBlock e sessionId reqBody s of (r, s1) \<Rightarrow> (catchError r, s1))"

section \<open>The other entry points of the server\<close>

text \<open>The constructor: both pools in concurrent mode, the single server otherwise.\<close>

definition newMCPHttpServer :: "bool \<Rightarrow> MCPHttpServer" where
  "newMCPHttpServer enableConcurrentSessions =
     (if enableConcurrentSessions then
        \<lparr>transports = [], connectionCount = 0, isRunning = False, mcpServer = None,
         mcpServerPool = Some Map.empty, sessionManager = Some Map.empty, log = []\<rparr>
      else
        \<lparr>transports = [], connectionCount = 0, isRunning = False, mcpServer = Some 0,
         mcpServerPool = None, sessionManager = None, log = [NewServer 0 None]\<rparr>)"

text \<open>Lines 474-487: \<open>app.delete('/mcp', ...)\<close>.\<close>

definition deleteSession :: "sid option \<Rightarrow> MCPHttpServer \<Rightarrow> response \<times> MCPHttpServer" where
  "deleteSession sessionId s =
     (case sessionId of
        None \<Rightarrow> (\<lparr>status = 404, sessionHeader = None, body = SessionNotFound\<rparr>, s)
      | Some i \<Rightarrow>
          (case live (transports s) sessionId of
             Some t \<Rightarrow>
               (\<lparr>status = 200, sessionHeader = None, body = SessionClosed\<rparr>,
                s\<lparr>log := log s @ [Close t],
                  transports := AList.delete i (transports s),
                  connectionCount := max 0 (connectionCount s - 1)\<rparr>)
           | None \<Rightarrow> (\<lparr>status = 404, sessionHeader = None, body = SessionNotFound\<rparr>, s)))"

text \<open>Lines 107-116: the \<open>session-evicted\<close> handler.\<close>

definition onSessionEvicted :: "sid \<Rightarrow> MCPHttpServer \<Rightarrow> MCPHttpServer" where
  "onSessionEvicted i s =
     (case map_of (transports s) i of
        None \<Rightarrow> s
      | Some t \<Rightarrow>
          s\<lparr>log := log s @ [Close t],
            transports := AList.delete i (transports s),
            connectionCount := max 0 (connectionCount s - 1)\<rparr>)"

text \<open>
  Lines 549-563: the \<open>close\<close> and the \<open>error\<close> callback of \<open>attachTransportHandlers\<close>
  for session \<open>sessId\<close>. The transport delivers them on its own, between HTTP calls.
\<close>

definition onTransportClose :: "sid \<Rightarrow> MCPHttpServer \<Rightarrow> MCPHttpServer" where
  "onTransportClose sessId s =
     (if has (transports s) sessId then
        s\<lparr>transports := AList.delete sessId (transports s),
          connectionCount := max 0 (connectionCount s - 1)\<rparr>
      else s)"

definition onTransportError :: "sid \<Rightarrow> MCPHttpServer \<Rightarrow> MCPHttpServer" where
  "onTransportError sessId s =
     (if has (transports s) sessId then
        s\<lparr>transports := AList.delete sessId (transports s),
          connectionCount := max 0 (connectionCount s - 1)\<rparr>
      else s)"

text \<open>\<open>start\<close>, as far as the router's fields go: the listen callback sets \<open>isRunning\<close>.\<close>

definition start :: "MCPHttpServer \<Rightarrow> MCPHttpServer" where
  "start s = (if isRunning s then s else s\<lparr>isRunning := True\<rparr>)"

text \<open>
  Modelled from the spec: \<open>SessionManager.stop\<close> (src/utils/session-manager.ts is not
  among the sources). Section 4.4: shutdown clears both registries.
\<close>

definition stopSessionManager :: "(sid \<rightharpoonup> session) \<Rightarrow> (sid \<rightharpoonup> session)" where
  "stopSessionManager m = Map.empty"

text \<open>
  Modelled from the spec: \<open>MCPServerPool.shutdown\<close> (src/utils/mcp-server-pool.ts is not
  among the sources). Sections 3 and 4.4: handlers are destroyed when the pool shuts
  down.
\<close>

definition shutdownServerPool :: "(sid \<rightharpoonup> hid) \<Rightarrow> (sid \<rightharpoonup> hid)" where
  "shutdownServerPool pool = Map.empty"

text \<open>
  Lines 872-907: \<open>stop\<close>. Every transport is closed in the order of the map, the map is
  cleared and the counter reset; then the session manager is stopped and the server
  pool shut down, where they exist. \<open>isRunning\<close> stands for
  \<open>this.isRunning && this.server\<close>.
\<close>

definition stop :: "MCPHttpServer \<Rightarrow> MCPHttpServer" where
  "stop s =
     (if \<not> isRunning s then s
      else
        s\<lparr>log := log s @ map (\<lambda>(i, t). Close t) (transports s),
          transports := [],
          connectionCount := 0,
          sessionManager := map_option stopSessionManager (sessionManager s),
          mcpServerPool := map_option shutdownServerPool (mcpServerPool s),
          isRunning := False\<rparr>)"

text \<open>One thing that happens to the server, and a run of such things.\<close>

datatype action =
    Post env "sid option" "request option"
  | Delete "sid option"
  | TransportClosed sid
  | TransportFailed sid
  | SessionEvicted sid
  | Start
  | Stop

fun step :: "action \<Rightarrow> MCPHttpServer \<Rightarrow> MCPHttpServer" where
  "step (Post e sessionId reqBody) s = snd (handleMCPRequest e sessionId reqBody s)"
| "step (Delete sessionId) s = snd (deleteSession sessionId s)"
| "step (TransportClosed i) s = onTransportClose i s"
| "step (TransportFailed i) s = onTransportError i s"
| "step (SessionEvicted i) s = onSessionEvicted i s"
| "step Start s = start s"
| "step Stop s = stop s"

fun run :: "action list \<Rightarrow> MCPHttpServer \<Rightarrow> MCPHttpServer" where
  "run [] s = s"
| "run (a # as) s = run as (step a s)"

section \<open>The worker manager (src/utils/worker-manager.ts)\<close>

text \<open>
  A promise returned by \<open>submitTask\<close> is known by its number, in order of creation.
  The callback stored in \<open>pendingTasks\<close> for a task closes over the \<open>resolve\<close> and
  \<open>reject\<close> of one promise, so the map holds that promise's number. \<open>invoked\<close> logs
  every invocation of a stored callback, \<open>posted\<close> every \<open>worker.postMessage\<close>, and
  \<open>timers\<close> every timer set by \<open>setTimeout\<close>, as the task id and the promise its
  closure holds; these three are not fields of the class.
\<close>

type_synonym pid = nat

text \<open>
  \<open>task.data\<close> is \<open>unknown\<close>; \<open>None\<close> is an undefined or null payload.
\<close>

record WorkerTask =
  taskId :: string
  taskSession :: string
  operation :: string
  payload :: "string option"

record WorkerResult =
  resultId :: string
  success :: bool
  result :: "string option"
  error :: "string option"

record WorkerMessage =
  mtype :: string
  mid :: "string option"
  mresult :: "string option"
  merror :: "string option"

datatype promise = Pending | Resolved WorkerResult | Rejected string

record WorkerManager =
  workers :: "string list"
  pendingTasks :: "(string \<times> pid) list"
  promises :: "promise list"
  invoked :: "(pid \<times> WorkerResult) list"
  posted :: "(string \<times> WorkerTask) list"
  timers :: "(string \<times> pid) list"

definition newWorkerManager :: WorkerManager where
  "newWorkerManager =
     \<lparr>workers = [], pendingTasks = [], promises = [], invoked = [], posted = [], timers = []\<rparr>"

text \<open>
  \<open>resolve\<close> and \<open>reject\<close> of a promise: only the first call has an effect.
\<close>

definition settle :: "pid \<Rightarrow> promise \<Rightarrow> promise list \<Rightarrow> promise list" where
  "settle p v ps = (if p < length ps \<and> ps ! p = Pending then ps[p := v] else ps)"

text \<open>
  Lines 74-80, the stored callback:
  \<^verbatim>\<open>(result) => { if (result.success) resolve(result);
                else reject(new Error(result.error || 'Unknown worker error')); }\<close>
\<close>

definition callback :: "pid \<Rightarrow> WorkerResult \<Rightarrow> WorkerManager \<Rightarrow> WorkerManager" where
  "callback p res w =
     w\<lparr>invoked := invoked w @ [(p, res)],
       promises :=
         settle p
           (if success res then Resolved res
            else Rejected (case error res of
                             None \<Rightarrow> ''Unknown worker error''
                           | Some m \<Rightarrow> if m = [] then ''Unknown worker error'' else m))
           (promises w)\<rparr>"

text \<open>
  Lines 38-64: \<open>getWorker\<close> creates the session's worker when there is none.
\<close>

definition getWorker :: "string \<Rightarrow> WorkerManager \<Rightarrow> WorkerManager" where
  "getWorker i w = (if i \<in> set (workers w) then w else w\<lparr>workers := workers w @ [i]\<rparr>)"

text \<open>
  Lines 69-101. The executor runs \<open>getWorker\<close>, stores the callback, posts the task
  and sets the timer. Reading \<open>(task.data as any).action\<close> throws when the payload is
  undefined; a throwing executor rejects the promise, after the callback was stored and
  before the timer is set.
\<close>

definition submitTask :: "WorkerTask \<Rightarrow> WorkerManager \<Rightarrow> pid \<times> WorkerManager" where
  "submitTask task w =
     (let p = length (promises w);
          w1 = getWorker (taskSession task) (w\<lparr>promises := promises w @ [Pending]\<rparr>);
          w2 = w1\<lparr>pendingTasks := AList.update (taskId task) p (pendingTasks w1)\<rparr>
      in case payload task of
           None \<Rightarrow>
             (p, w2\<lparr>promises :=
                      settle p (Rejected ''Cannot read properties of undefined (reading action)'')
                        (promises w2)\<rparr>)
         | Some d \<Rightarrow>
             (p, w2\<lparr>posted := posted w2 @ [(taskSession task, task)],
                    timers := timers w2 @ [(taskId task, p)]\<rparr>))"

text \<open>
  Lines 94-99, the timer closure of the submission with task id \<open>k\<close> and promise \<open>p\<close>:
  \<^verbatim>\<open>if (this.pendingTasks.has(task.id)) {
    this.pendingTasks.delete(task.id); reject(new Error('Worker task timeout')); }\<close>
\<close>

definition onTimeout :: "string \<Rightarrow> pid \<Rightarrow> WorkerManager \<Rightarrow> WorkerManager" where
  "onTimeout k p w =
     (if map_of (pendingTasks w) k \<noteq> None then
        w\<lparr>pendingTasks := AList.delete k (pendingTasks w),
          promises := settle p (Rejected ''Worker task timeout'') (promises w)\<rparr>
      else w)"

text \<open>
  Lines 106-126.
\<close>

definition handleWorkerMessage :: "string \<Rightarrow> WorkerMessage \<Rightarrow> WorkerManager \<Rightarrow> WorkerManager" where
  "handleWorkerMessage i m w =
     (if mtype m = ''ready'' then w
      else
        (case mid m of
           None \<Rightarrow> w
         | Some k \<Rightarrow>
             (if k = [] then w
              else
                (case map_of (pendingTasks w) k of
                   None \<Rightarrow> w
                 | Some p \<Rightarrow>
                     callback p
                       \<lparr>resultId = k, success = (mtype m = ''result''),
                        result = mresult m, error = merror m\<rparr>
                       (w\<lparr>pendingTasks := AList.delete k (pendingTasks w)\<rparr>)))))"

text \<open>
  Lines 131-144. The loop runs over all entries of \<open>pendingTasks\<close> and calls each
  callback; it removes no entry.
\<close>

definition handleWorkerError :: "string \<Rightarrow> string \<Rightarrow> WorkerManager \<Rightarrow> WorkerManager" where
  "handleWorkerError i msg w =
     (let w1 = fold (\<lambda>(k, p). callback p
                      \<lparr>resultId = k, success = False, result = None,
                       error = Some (''Worker error: '' @ msg)\<rparr>)
                 (pendingTasks w) w
      in w1\<lparr>workers := removeAll i (workers w1)\<rparr>)"


text \<open>
  Lines 149-156.
\<close>

definition terminateWorker :: "string \<Rightarrow> WorkerManager \<Rightarrow> WorkerManager" where
  "terminateWorker i w =
     (if i \<in> set (workers w) then w\<lparr>workers := removeAll i (workers w)\<rparr> else w)"

text \<open>
  Lines 161-172.
\<close>

definition terminateAll :: "WorkerManager \<Rightarrow> WorkerManager" where
  "terminateAll w = w\<lparr>workers := [], pendingTasks := []\<rparr>"




section \<open>Vocabulary of the statements\<close>

text \<open>
  The handler accepts a protocol version when the synthesized initialize for it, sent
  through the transport with the null response, does not throw.
\<close>

definition accepts :: "env \<Rightarrow> string \<Rightarrow> bool" where
  "accepts e ver = (threw (handleRequest e NullRes (CompatInit ver)) = None)"

text \<open>
  The versions attempted in order, stopping at the first accepted one: the rejected
  prefix of the list and the first accepted version, if there is one.
\<close>

definition tried :: "env \<Rightarrow> string list \<Rightarrow> string list" where
  "tried e vs =
     takeWhile (\<lambda>v. \<not> accepts e v) vs @ take 1 (dropWhile (\<lambda>v. \<not> accepts e v) vs)"

text \<open>
  The calls of \<open>transport.handleRequest\<close> made between state \<open>s\<close> and the later state \<open>s'\<close>.
\<close>

definition calls :: "MCPHttpServer \<Rightarrow> MCPHttpServer \<Rightarrow> event list" where
  "calls s s' = filter isHandleRequest (drop (length (log s)) (log s'))"

text \<open>
  What the client receives when the router forwards a request and the transport's
  \<open>handleRequest\<close> ends with the given outcome: what the transport wrote, or the
  router's 500 when it threw before writing anything.
\<close>

definition clientSees :: "outcome \<Rightarrow> response option" where
  "clientSees out =
     (case threw out of
        None \<Rightarrow> wrote out
      | Some x \<Rightarrow> (case wrote out of None \<Rightarrow> Some (internalError x) | Some r \<Rightarrow> Some r))"

text \<open>
  The session identifier a creating, non-handshake call works under.
\<close>

definition assignedId :: "env \<Rightarrow> MCPHttpServer \<Rightarrow> sid option \<Rightarrow> sid" where
  "assignedId e s sessionId =
     (case sessionId of
        None \<Rightarrow> randomUUID e
      | Some i \<Rightarrow> if i \<noteq> [] \<or> mcpServerPool s \<noteq> None then i else randomUUID e)"

text \<open>
  What a creating branch leaves behind: the new transport bound under \<open>i\<close>, every
  other binding untouched, the counter raised by one, one transport constructed and
  no call of \<open>handleRequest\<close> yet.
\<close>

definition createdFor ::
  "env \<Rightarrow> sid \<Rightarrow> MCPHttpServer \<Rightarrow> MCPHttpServer \<Rightarrow> bool" where
  "createdFor e i s s1 =
     (map_of (transports s1) i = Some (transportsConstructed (log s)) \<and>
      (\<forall>j. j \<noteq> i \<longrightarrow> map_of (transports s1) j = map_of (transports s) j) \<and>
      connectionCount s1 = connectionCount s + 1 \<and>
      (\<exists>evs. log s1 = log s @ evs \<and> filter isHandleRequest evs = [] \<and>
             filter isNewTransport evs = [NewTransport (transportsConstructed (log s)) i]))"

text \<open>
  The Session Registry after a creating, non-handshake call: only the branch of
  non-concurrent mode for a call without identifier registers a session.
\<close>

definition sessionsAfterCreate :: "env \<Rightarrow> sid option \<Rightarrow> MCPHttpServer \<Rightarrow> (sid \<rightharpoonup> session) option" where
  "sessionsAfterCreate e sessionId s =
     (if truthy sessionId \<or> mcpServerPool s \<noteq> None then sessionManager s
      else sessionManager (register e (randomUUID e) s))"

text \<open>
  Every bound session has a server in the pool (concurrent mode).
\<close>

definition poolCovers :: "(sid \<rightharpoonup> hid) option \<Rightarrow> (sid \<times> tid) list \<Rightarrow> bool" where
  "poolCovers p ts =
     (case p of None \<Rightarrow> True | Some pool \<Rightarrow> list_all (\<lambda>(i, t). pool i \<noteq> None) ts)"

text \<open>
  The invariant of the server's fields.
\<close>

definition wellFormed :: "MCPHttpServer \<Rightarrow> bool" where
  "wellFormed s =
     (int (length (transports s)) \<le> connectionCount s \<and>
      (mcpServerPool s \<noteq> None \<or> mcpServer s \<noteq> None) \<and>
      poolCovers (mcpServerPool s) (transports s))"

text \<open>
  The Session record of an identifier, if any.
\<close>

definition sessionOf :: "MCPHttpServer \<Rightarrow> sid \<Rightarrow> session option" where
  "sessionOf s i = (case sessionManager s of None \<Rightarrow> None | Some m \<Rightarrow> m i)"


text \<open>
  Promise \<open>p\<close> exists and, as long as it is pending, its callback is the one stored
  under task id \<open>k\<close>.
\<close>

definition stillStored :: "string \<Rightarrow> pid \<Rightarrow> WorkerManager \<Rightarrow> bool" where
  "stillStored k p w =
     (p < length (promises w) \<and>
      (promises w ! p = Pending \<longrightarrow> map_of (pendingTasks w) k = Some p))"

text \<open>
  How often the callback of promise \<open>p\<close> has been invoked.
\<close>

definition invocations :: "pid \<Rightarrow> WorkerManager \<Rightarrow> nat" where
  "invocations p w = length (filter (\<lambda>(q, res). q = p) (invoked w))"

section \<open>Concrete requests, collaborators and states\<close>

definition toolsList :: request where
  "toolsList = \<lparr>rmethod = Some ''tools/list'', rid = Some (IdNum 7), params = ''{}''\<rparr>"

definition initializeRequest :: request where
  "initializeRequest = \<lparr>rmethod = Some ''initialize'', rid = Some (IdNum 1), params = ''{}''\<rparr>"

definition pingRequest :: request where
  "pingRequest = \<lparr>rmethod = Some ''session/ping'', rid = Some (IdNum 3), params = ''{}''\<rparr>"

definition written :: "sid \<Rightarrow> outcome" where
  "written i =
     \<lparr>wrote = Some \<lparr>status = 200, sessionHeader = Some i, body = Opaque ''tools''\<rparr>,
      threw = None\<rparr>"

definition crashed :: outcome where
  "crashed = \<lparr>wrote = None, threw = Some (Error ''socket hang up'')\<rparr>"

definition silent :: outcome where
  "silent = \<lparr>wrote = None, threw = None\<rparr>"

definition rejected :: outcome where
  "rejected = \<lparr>wrote = None, threw = Some (Error ''Server not initialized'')\<rparr>"

text \<open>
  \<open>sdk supported out\<close> is an SDK whose transport accepts a synthesized initialize for
  the versions in \<open>supported\<close> only, and ends the handling of any client message
  with \<open>out\<close>.
\<close>

definition sdk :: "string list \<Rightarrow> outcome \<Rightarrow> env" where
  "sdk supported out =
     \<lparr>isInitializeRequest = (\<lambda>rq. rmethod rq = Some ''initialize''),
      randomUUID = ''6f1c'',
      connect = None,
      handleRequest = (\<lambda>k m. case m of
          CompatInit v \<Rightarrow>
            \<lparr>wrote = None,
             threw = (if v \<in> set supported then None
                      else Some (Error ''Unsupported protocol version''))\<rparr>
        | ClientMsg rq \<Rightarrow> out),
      now = 1000\<rparr>"

definition afterHandshake :: MCPHttpServer where
  "afterHandshake =
     run [Post (sdk [] (written ''S9'')) (Some ''S9'') (Some initializeRequest)]
       (newMCPHttpServer True)"

definition taskA :: WorkerTask where
  "taskA = \<lparr>taskId = ''t1'', taskSession = ''A'', operation = ''graph'', payload = Some ''{}''\<rparr>"

definition taskB :: WorkerTask where
  "taskB = \<lparr>taskId = ''t2'', taskSession = ''B'', operation = ''graph'', payload = Some ''{}''\<rparr>"

definition twoSessions :: WorkerManager where
  "twoSessions = snd (submitTask taskB (snd (submitTask taskA newWorkerManager)))"

definition doneB :: WorkerMessage where
  "doneB = \<lparr>mtype = ''result'', mid = Some ''t2'', mresult = Some ''ok'', merror = None\<rparr>"

lemmas eval_defs =
  handleMCPRequest_def tryBlock_def selectTransport_def selectConcurrent_def selectSingle_def
  createBranch_def connectAndBind_def selected_def compatInitialize_def respond_def forward_def
  versionsToTry_def poolServer_def getOrCreateServer_def register_def touch_def
  getOrCreateSession_def touchSession_def has_def live_def isPing_def ping_def
  transportsConstructed_def serversConstructed_def newMCPHttpServer_def
  sdk_def toolsList_def initializeRequest_def pingRequest_def written_def rejected_def
  sessionOf_def internalError_def Let_def

lemmas worker_defs =
  submitTask_def getWorker_def newWorkerManager_def settle_def callback_def onTimeout_def
  handleWorkerMessage_def handleWorkerError_def terminateWorker_def terminateAll_def
  invocations_def taskA_def taskB_def twoSessions_def doneB_def Let_def

section \<open>Frame lemmas of the router\<close>


lemma touch_frame [simp]:
  "connectionCount (touch e i s) = connectionCount s"
  "transports (touch e i s) = transports s"
  "log (touch e i s) = log s"
  "mcpServerPool (touch e i s) = mcpServerPool s"
  "mcpServer (touch e i s) = mcpServer s"
  "isRunning (touch e i s) = isRunning s"
  by (simp_all add: touch_def split: option.splits)

lemma register_frame [simp]:
  "connectionCount (register e i s) = connectionCount s"
  "transports (register e i s) = transports s"
  "log (register e i s) = log s"
  "mcpServerPool (register e i s) = mcpServerPool s"
  "mcpServer (register e i s) = mcpServer s"
  "isRunning (register e i s) = isRunning s"
  by (simp_all add: register_def split: option.splits)

lemma poolServer_frame:
  "poolServer i pool s = (h, s1) \<Longrightarrow>
     connectionCount s1 = connectionCount s \<and> transports s1 = transports s \<and>
     sessionManager s1 = sessionManager s \<and> mcpServer s1 = mcpServer s \<and>
     isRunning s1 = isRunning s"
  by (auto simp: poolServer_def getOrCreateServer_def Let_def split: option.splits prod.splits)

lemma connectAndBind_count:
  "connectAndBind e srv i s = (r, s1) \<Longrightarrow> connectionCount s \<le> connectionCount s1"
  by (auto simp: connectAndBind_def Let_def split: option.splits)

lemma createBranch_count:
  "createBranch e srv i ra flag s = (r, s1) \<Longrightarrow> connectionCount s \<le> connectionCount s1"
  by (auto simp: createBranch_def split: prod.splits sum.splits dest: connectAndBind_count)

lemma selectConcurrent_count:
  "selectConcurrent e pool sessionId rq s = (r, s1) \<Longrightarrow> connectionCount s \<le> connectionCount s1"
  unfolding selectConcurrent_def
  by (auto split: option.splits if_splits prod.splits dest!: poolServer_frame createBranch_count)

lemma selectSingle_count:
  "selectSingle e sessionId rq s = (r, s1) \<Longrightarrow> connectionCount s \<le> connectionCount s1"
  unfolding selectSingle_def
  by (auto split: option.splits if_splits prod.splits dest!: createBranch_count)

lemma selectTransport_count:
  "selectTransport e sessionId rq s = (r, s1) \<Longrightarrow> connectionCount s \<le> connectionCount s1"
  unfolding selectTransport_def
  by (auto split: option.splits dest: selectConcurrent_count selectSingle_count)

lemma compatInitialize_count:
  "compatInitialize e rq sel s = (sel', s1) \<Longrightarrow> connectionCount s1 = connectionCount s"
  by (auto simp: compatInitialize_def split: option.splits if_splits prod.splits)

lemma respond_count:
  "respond e sessionId rq sel s = (r, s1) \<Longrightarrow> connectionCount s1 = connectionCount s"
  by (auto simp: respond_def forward_def Let_def split: option.splits if_splits)

lemma ping_count:
  "ping e sessionId rq s = (r, s1) \<Longrightarrow> connectionCount s1 = connectionCount s"
  by (auto simp: ping_def split: option.splits if_splits)

lemma handleMCPRequest_count:
  "connectionCount s \<le> connectionCount (snd (handleMCPRequest e sessionId reqBody s))"
  unfolding handleMCPRequest_def tryBlock_def
  by (auto split: option.splits prod.splits sum.splits
      dest!: selectTransport_count compatInitialize_count respond_count ping_count)

lemma step_nonneg: "0 \<le> connectionCount s \<Longrightarrow> 0 \<le> connectionCount (step a s)"
proof (cases a)
  case (Post e sessionId reqBody)
  assume "0 \<le> connectionCount s"
  with handleMCPRequest_count [of s e sessionId reqBody] Post show ?thesis by simp
qed (auto simp: deleteSession_def onTransportClose_def onTransportError_def
       onSessionEvicted_def start_def stop_def split: option.splits)

lemma run_nonneg: "0 \<le> connectionCount s \<Longrightarrow> 0 \<le> connectionCount (run as s)"
  by (induction as arbitrary: s) (auto intro: step_nonneg)

section \<open>A creating, non-handshake call\<close>

lemma compatLoop_events:
  "snd (compatLoop e t i vs) = map (\<lambda>v. HandleRequest t i NullRes (CompatInit v)) (tried e vs)"
proof (induction vs)
  case Nil
  show ?case by (simp add: tried_def)
next
  case (Cons v vs)
  then show ?case
    by (auto simp: tried_def accepts_def split: option.splits prod.splits)
qed

lemma tried_in_order: "\<exists>rest. vs = tried e vs @ rest"
proof -
  have "vs = takeWhile (\<lambda>v. \<not> accepts e v) vs @ dropWhile (\<lambda>v. \<not> accepts e v) vs"
    by simp
  also have "dropWhile (\<lambda>v. \<not> accepts e v) vs =
      take 1 (dropWhile (\<lambda>v. \<not> accepts e v) vs) @ drop 1 (dropWhile (\<lambda>v. \<not> accepts e v) vs)"
    by simp
  finally show ?thesis unfolding tried_def by (metis append.assoc)
qed

lemma tried_all_rejected: "\<forall>v \<in> set vs. \<not> accepts e v \<Longrightarrow> tried e vs = vs"
  by (induction vs) (simp_all add: tried_def)

lemma tried_stops_at_first_accepted:
  assumes "v \<in> set vs" "accepts e v"
  shows "\<exists>rejectedBefore u. tried e vs = rejectedBefore @ [u] \<and> accepts e u \<and>
           (\<forall>r \<in> set rejectedBefore. \<not> accepts e r)"
proof -
  let ?P = "\<lambda>v. \<not> accepts e v"
  from assms have "dropWhile ?P vs \<noteq> []" by auto
  then obtain u rest where d: "dropWhile ?P vs = u # rest" by (cases "dropWhile ?P vs") auto
  then have "accepts e u" using hd_dropWhile [of ?P vs] by auto
  moreover have "\<forall>r \<in> set (takeWhile ?P vs). \<not> accepts e r" by (auto dest: set_takeWhileD)
  ultimately show ?thesis using d by (auto simp: tried_def)
qed

lemma compatLoop_initOk:
  "fst (compatLoop e t i vs) = (\<exists>v \<in> set vs. accepts e v)"
  by (induction vs) (auto simp: accepts_def split: option.splits prod.splits)

lemma connectAndBind_ok:
  "connect e = None \<Longrightarrow>
   connectAndBind e (Some h) i s =
     (Inr (transportsConstructed (log s)),
      s\<lparr>log := log s @ [NewTransport (transportsConstructed (log s)) i,
                         Connect h (transportsConstructed (log s))],
        transports := AList.update i (transportsConstructed (log s)) (transports s),
        connectionCount := connectionCount s + 1\<rparr>)"
  by (simp add: connectAndBind_def Let_def)

lemma createBranch_ok:
  "connect e = None \<Longrightarrow>
   createBranch e (Some h) i ra flag s =
     (Inr (selected (Some (transportsConstructed (log s))) i flag),
      (if ra then register e i else id)
        (s\<lparr>log := log s @ [NewTransport (transportsConstructed (log s)) i,
                           Connect h (transportsConstructed (log s))],
          transports := AList.update i (transportsConstructed (log s)) (transports s),
          connectionCount := connectionCount s + 1\<rparr>))"
  by (simp add: createBranch_def connectAndBind_ok)

lemma poolServer_log:
  "poolServer i pool s = (h, s1) \<Longrightarrow>
     transportsConstructed (log s1) = transportsConstructed (log s) \<and>
     transports s1 = transports s \<and> connectionCount s1 = connectionCount s \<and>
     sessionManager s1 = sessionManager s \<and>
     (\<exists>evs. log s1 = log s @ evs \<and> filter isHandleRequest evs = [] \<and>
            filter isNewTransport evs = [])"
  by (auto simp: poolServer_def getOrCreateServer_def Let_def transportsConstructed_def
      split: option.splits prod.splits)

lemma selectConcurrent_nonInit:
  assumes "\<not> isInitializeRequest e rq" "live (transports s) sessionId = None"
    "connect e = None" "mcpServerPool s = Some pool"
  shows "\<exists>s1. selectConcurrent e pool sessionId rq s =
            (Inr (selected (Some (transportsConstructed (log s))) (assignedId e s sessionId) True), s1)
          \<and> createdFor e (assignedId e s sessionId) s s1
          \<and> sessionManager s1 = sessionManager s"
proof -
  obtain h s0 where ps: "poolServer (assignedId e s sessionId) pool s = (h, s0)"
    by (cases "poolServer (assignedId e s sessionId) pool s") auto
  note f = poolServer_log [OF ps]
  from f obtain evs where evs: "log s0 = log s @ evs" "filter isHandleRequest evs = []"
    "filter isNewTransport evs = []" by blast
  have cb: "createBranch e (Some h) (assignedId e s sessionId) False True s0 =
     (Inr (selected (Some (transportsConstructed (log s))) (assignedId e s sessionId) True),
      s0\<lparr>log := log s0 @ [NewTransport (transportsConstructed (log s)) (assignedId e s sessionId),
                           Connect h (transportsConstructed (log s))],
          transports := AList.update (assignedId e s sessionId) (transportsConstructed (log s)) (transports s0),
          connectionCount := connectionCount s0 + 1\<rparr>)"
    using createBranch_ok [OF assms(3), of h "assignedId e s sessionId" False True s0] f by simp
  have sel: "selectConcurrent e pool sessionId rq s =
      createBranch e (Some h) (assignedId e s sessionId) False True s0"
    using assms ps
    by (auto simp: selectConcurrent_def assignedId_def live_def has_def split: option.splits if_splits)
  show ?thesis
    unfolding sel cb using f evs
    by (auto simp: createdFor_def update_conv)
qed

lemma selectSingle_nonInit:
  assumes "\<not> isInitializeRequest e rq" "live (transports s) sessionId = None"
    "connect e = None" "mcpServerPool s = None" "mcpServer s = Some h"
  shows "\<exists>s1. selectSingle e sessionId rq s =
            (Inr (selected (Some (transportsConstructed (log s))) (assignedId e s sessionId) True), s1)
          \<and> createdFor e (assignedId e s sessionId) s s1
          \<and> sessionManager s1 =
              (if truthy sessionId then sessionManager s
               else sessionManager (register e (randomUUID e) s))"
proof -
  have sel: "selectSingle e sessionId rq s =
      createBranch e (Some h) (assignedId e s sessionId) (\<not> truthy sessionId) True s"
    using assms
    by (auto simp: selectSingle_def assignedId_def live_def has_def split: option.splits if_splits)
  show ?thesis
    unfolding sel createBranch_ok [OF assms(3)]
    using assms(2,4)
    by (auto simp: createdFor_def update_conv register_def assignedId_def live_def
        split: option.splits if_splits)
qed

lemma selectTransport_nonInit:
  assumes "\<not> isInitializeRequest e rq" "live (transports s) sessionId = None"
    "connect e = None" "mcpServerPool s \<noteq> None \<or> mcpServer s \<noteq> None"
  shows "\<exists>s1. selectTransport e sessionId rq s =
            (Inr (selected (Some (transportsConstructed (log s))) (assignedId e s sessionId) True), s1)
          \<and> createdFor e (assignedId e s sessionId) s s1
          \<and> sessionManager s1 = sessionsAfterCreate e sessionId s"
proof (cases "mcpServerPool s")
  case None
  with assms(4) obtain h where "mcpServer s = Some h" by auto
  from selectSingle_nonInit [OF assms(1-3) None this] None show ?thesis
    by (simp add: selectTransport_def sessionsAfterCreate_def)
next
  case (Some pool)
  from selectConcurrent_nonInit [OF assms(1-3) Some] Some show ?thesis
    by (simp add: selectTransport_def sessionsAfterCreate_def)
qed

lemma compatInitialize_nonInit:
  assumes "\<not> isInitializeRequest e rq"
  shows "compatInitialize e rq (selected (Some t) i True) s1 =
           (selected (Some t) i False,
            s1\<lparr>log := log s1 @ snd (compatLoop e t (Some i) versionsToTry)\<rparr>)"
  using assms
  by (cases "compatLoop e t (Some i) versionsToTry")
     (simp add: compatInitialize_def selected_def)

lemma respond_forward:
  "respond e sessionId rq (selected (Some t) i False) s2 =
     ((case threw (handleRequest e RealRes (ClientMsg rq)) of
         None \<Rightarrow> Done (wrote (handleRequest e RealRes (ClientMsg rq)))
       | Some x \<Rightarrow> Threw x (wrote (handleRequest e RealRes (ClientMsg rq)))),
      s2\<lparr>log := log s2 @ [HandleRequest t sessionId RealRes (ClientMsg rq)]\<rparr>)"
  by (simp add: respond_def selected_def forward_def Let_def split: option.splits)

lemma tail_nonInit:
  assumes "\<not> isInitializeRequest e rq"
  shows "(case compatInitialize e rq (selected (Some t) i True) s1 of
            (sel', s2) \<Rightarrow> respond e sessionId rq sel' s2) =
         ((case threw (handleRequest e RealRes (ClientMsg rq)) of
             None \<Rightarrow> Done (wrote (handleRequest e RealRes (ClientMsg rq)))
           | Some x \<Rightarrow> Threw x (wrote (handleRequest e RealRes (ClientMsg rq)))),
          s1\<lparr>log := log s1 @ snd (compatLoop e t (Some i) versionsToTry)
                      @ [HandleRequest t sessionId RealRes (ClientMsg rq)]\<rparr>)"
  by (simp add: compatInitialize_nonInit [OF assms] respond_forward)

lemma catchError_clientSees:
  "catchError (case threw out of None \<Rightarrow> Done (wrote out) | Some x \<Rightarrow> Threw x (wrote out))
     = clientSees out"
  by (simp add: clientSees_def split: option.splits)

lemma post_create_nonInit:
  assumes "\<not> isPing rq" "\<not> isInitializeRequest e rq" "live (transports s) sessionId = None"
    "connect e = None" "mcpServerPool s \<noteq> None \<or> mcpServer s \<noteq> None"
  shows "\<exists>s'. handleMCPRequest e sessionId (Some rq) s =
            (clientSees (handleRequest e RealRes (ClientMsg rq)), s')
          \<and> map_of (transports s') (assignedId e s sessionId) = Some (transportsConstructed (log s))
          \<and> (\<forall>j. j \<noteq> assignedId e s sessionId \<longrightarrow> map_of (transports s') j = map_of (transports s) j)
          \<and> connectionCount s' = connectionCount s + 1
          \<and> sessionManager s' = sessionsAfterCreate e sessionId s
          \<and> transportsConstructed (log s') = Suc (transportsConstructed (log s))
          \<and> calls s s' =
               map (\<lambda>v. HandleRequest (transportsConstructed (log s))
                          (Some (assignedId e s sessionId)) NullRes (CompatInit v))
                 (tried e versionsToTry)
               @ [HandleRequest (transportsConstructed (log s)) sessionId RealRes (ClientMsg rq)]"
proof -
  let ?t = "transportsConstructed (log s)" and ?i = "assignedId e s sessionId"
  from selectTransport_nonInit [OF assms(2-5)] obtain s1 where
    sel: "selectTransport e sessionId rq s = (Inr (selected (Some ?t) ?i True), s1)"
    and cr: "createdFor e ?i s s1" and sm: "sessionManager s1 = sessionsAfterCreate e sessionId s"
    by blast
  from cr obtain evs where evs: "log s1 = log s @ evs" "filter isHandleRequest evs = []"
    "filter isNewTransport evs = [NewTransport ?t ?i]"
    by (auto simp: createdFor_def)
  let ?s' = "s1\<lparr>log := log s1 @ snd (compatLoop e ?t (Some ?i) versionsToTry)
                      @ [HandleRequest ?t sessionId RealRes (ClientMsg rq)]\<rparr>"
  have h: "handleMCPRequest e sessionId (Some rq) s =
             (clientSees (handleRequest e RealRes (ClientMsg rq)), ?s')"
    using assms(1) sel tail_nonInit [OF assms(2), where t = ?t and i = ?i and ?s1.0 = s1 and sessionId = sessionId]
    by (simp add: handleMCPRequest_def tryBlock_def catchError_clientSees)
  have c: "calls s ?s' =
      map (\<lambda>v. HandleRequest ?t (Some ?i) NullRes (CompatInit v)) (tried e versionsToTry)
      @ [HandleRequest ?t sessionId RealRes (ClientMsg rq)]"
    using evs by (simp add: calls_def compatLoop_events)
  have n: "transportsConstructed (log ?s') = Suc ?t"
    using evs by (simp add: transportsConstructed_def compatLoop_events)
  from cr sm h c n show ?thesis
    by (intro exI [of _ ?s']) (simp add: createdFor_def)
qed

section \<open>The invariant holds in every reachable state\<close>

lemma list_all_update:
  "list_all P ts \<Longrightarrow> P (i, t) \<Longrightarrow> list_all P (AList.update i t ts)"
  by (induction ts) auto

lemma list_all_delete:
  "list_all P ts \<Longrightarrow> list_all P (AList.delete i ts)"
  by (induction ts) auto

lemma length_update_le: "length (AList.update i t ts) \<le> Suc (length ts)"
  by (induction ts) auto

lemma length_delete_lt:
  "map_of ts i = Some t \<Longrightarrow> length (AList.delete i ts) < length ts"
proof (induction ts)
  case Nil
  then show ?case by simp
next
  case (Cons p ts)
  have "length (AList.delete i ts) \<le> length ts" by (rule length_delete_le)
  with Cons show ?case by (cases p) (auto split: if_splits)
qed

lemma wellFormed_new: "wellFormed (newMCPHttpServer c)"
  by (simp add: wellFormed_def newMCPHttpServer_def poolCovers_def)

lemma wellFormed_touch [simp]: "wellFormed (touch e i s) = wellFormed s"
  by (simp add: wellFormed_def)

lemma wellFormed_register [simp]: "wellFormed (register e i s) = wellFormed s"
  by (simp add: wellFormed_def)

lemma wellFormed_log [simp]: "wellFormed (s\<lparr>log := lg\<rparr>) = wellFormed s"
  by (simp add: wellFormed_def)

lemma poolServer_wellFormed:
  assumes "poolServer i pool s = (h, s1)" "mcpServerPool s = Some pool" "wellFormed s"
  shows "wellFormed s1 \<and> (\<exists>pool'. mcpServerPool s1 = Some pool' \<and> pool' i = Some h)"
proof (cases "pool i")
  case None
  have "list_all (\<lambda>(j, t). pool j \<noteq> None) (transports s)"
    using assms(2,3) by (simp add: wellFormed_def poolCovers_def)
  then have "list_all (\<lambda>(j, t). (pool(i \<mapsto> h)) j \<noteq> None) (transports s)"
    by (induction "transports s") (auto simp: list_all_iff)
  with assms None show ?thesis
    by (auto simp: poolServer_def getOrCreateServer_def Let_def wellFormed_def poolCovers_def)
next
  case (Some h')
  with assms show ?thesis
    by (auto simp: poolServer_def getOrCreateServer_def wellFormed_def)
qed

lemma connectAndBind_wellFormed:
  assumes "connectAndBind e srv i s = (r, s1)" "wellFormed s"
    "case mcpServerPool s of None \<Rightarrow> True | Some pool \<Rightarrow> pool i \<noteq> None"
  shows "wellFormed s1"
proof -
  have "int (length (AList.update i t (transports s))) \<le> connectionCount s + 1" for t
    using length_update_le [of i t "transports s"] assms(2) by (simp add: wellFormed_def)
  moreover have "poolCovers (mcpServerPool s) (AList.update i t (transports s))" for t
    using assms(2,3) by (auto simp: wellFormed_def poolCovers_def intro: list_all_update split: option.splits)
  ultimately show ?thesis
    using assms(1,2)
    by (auto simp: connectAndBind_def Let_def wellFormed_def split: option.splits)
qed

lemma createBranch_wellFormed:
  assumes "createBranch e srv i ra flag s = (r, s1)" "wellFormed s"
    "case mcpServerPool s of None \<Rightarrow> True | Some pool \<Rightarrow> pool i \<noteq> None"
  shows "wellFormed s1"
  using assms
  by (auto simp: createBranch_def split: prod.splits sum.splits if_splits
      dest: connectAndBind_wellFormed)

lemma pool_then_create_wellFormed:
  assumes "mcpServerPool s = Some pool" "wellFormed s"
  shows "wellFormed (snd (case poolServer i pool s of
                             (h, s1) \<Rightarrow> createBranch e (Some h) i ra flag s1))"
proof -
  obtain h s1 where ps: "poolServer i pool s = (h, s1)" by (cases "poolServer i pool s") auto
  from poolServer_wellFormed [OF ps assms] obtain pool' where
    w: "wellFormed s1" and p: "mcpServerPool s1 = Some pool'" "pool' i = Some h" by blast
  obtain r s2 where cb: "createBranch e (Some h) i ra flag s1 = (r, s2)"
    by (cases "createBranch e (Some h) i ra flag s1") auto
  from createBranch_wellFormed [OF cb w] p have "wellFormed s2" by simp
  with ps cb show ?thesis by simp
qed

lemma selectConcurrent_wellFormed:
  assumes "mcpServerPool s = Some pool" "wellFormed s"
  shows "wellFormed (snd (selectConcurrent e pool sessionId rq s))"
proof -
  note pc = pool_then_create_wellFormed [OF assms]
  have reuse: "wellFormed (snd (case poolServer i pool s of
      (h, s1) \<Rightarrow> (Inr (selected (map_of (transports s) i) i False), touch e i s1)))" for i
    using poolServer_wellFormed [OF _ assms] by (cases "poolServer i pool s") auto
  have reg: "wellFormed (snd (case poolServer i pool (register e i s) of
                             (h, s1) \<Rightarrow> createBranch e (Some h) i False False s1))" for i
    using pool_then_create_wellFormed [where s = "register e i s" and pool = pool and i = i
        and e = e and ra = False and flag = False] assms by simp
  show ?thesis
    unfolding selectConcurrent_def
    using pc reuse reg by (auto split: option.splits)
qed

lemma selectSingle_wellFormed:
  assumes "mcpServerPool s = None" "wellFormed s"
  shows "wellFormed (snd (selectSingle e sessionId rq s))"
proof -
  have cb: "wellFormed (snd (createBranch e srv i ra flag s))" for srv i ra flag
    using createBranch_wellFormed [of e srv i ra flag s] assms
    by (cases "createBranch e srv i ra flag s") auto
  show ?thesis
    unfolding selectSingle_def using cb assms(2) by (simp split: option.splits)
qed

lemma selectTransport_wellFormed:
  "wellFormed s \<Longrightarrow> wellFormed (snd (selectTransport e sessionId rq s))"
  unfolding selectTransport_def
  by (auto split: option.splits intro: selectConcurrent_wellFormed selectSingle_wellFormed)

lemma compatInitialize_wellFormed:
  "wellFormed s \<Longrightarrow> wellFormed (snd (compatInitialize e rq sel s))"
  by (auto simp: compatInitialize_def split: option.splits prod.splits)

lemma respond_wellFormed:
  "wellFormed s \<Longrightarrow> wellFormed (snd (respond e sessionId rq sel s))"
  by (auto simp: respond_def forward_def Let_def split: option.splits)

lemma ping_wellFormed:
  "wellFormed s \<Longrightarrow> wellFormed (snd (ping e sessionId rq s))"
  by (auto simp: ping_def split: option.splits)

lemma handleMCPRequest_wellFormed:
  assumes "wellFormed s"
  shows "wellFormed (snd (handleMCPRequest e sessionId reqBody s))"
proof (cases reqBody)
  case None
  with assms show ?thesis by (simp add: handleMCPRequest_def tryBlock_def)
next
  case (Some rq)
  show ?thesis
  proof (cases "isPing rq")
    case True
    with Some ping_wellFormed [OF assms, of e sessionId rq] show ?thesis
      by (cases "ping e sessionId rq s") (simp add: handleMCPRequest_def tryBlock_def)
  next
    case False
    obtain r s1 where st: "selectTransport e sessionId rq s = (r, s1)"
      by (cases "selectTransport e sessionId rq s") auto
    with selectTransport_wellFormed [OF assms, of e sessionId rq] have w1: "wellFormed s1" by simp
    show ?thesis
    proof (cases r)
      case (Inl x)
      with Some False st w1 show ?thesis by (simp add: handleMCPRequest_def tryBlock_def)
    next
      case (Inr sel)
      obtain sel' s2 where ci: "compatInitialize e rq sel s1 = (sel', s2)"
        by (cases "compatInitialize e rq sel s1") auto
      with compatInitialize_wellFormed [OF w1, of e rq sel] have w2: "wellFormed s2" by simp
      from respond_wellFormed [OF w2, of e sessionId rq sel'] Some False st Inr ci
      show ?thesis
        by (cases "respond e sessionId rq sel' s2") (simp add: handleMCPRequest_def tryBlock_def)
    qed
  qed
qed

lemma delete_wellFormed:
  assumes "wellFormed s" "map_of (transports s) i = Some t"
    "transports s' = AList.delete i (transports s)"
    "connectionCount s' = max 0 (connectionCount s - 1)"
    "mcpServerPool s' = mcpServerPool s" "mcpServer s' = mcpServer s"
  shows "wellFormed s'"
  using assms length_delete_lt [OF assms(2)]
  by (auto simp: wellFormed_def poolCovers_def intro: list_all_delete split: option.splits)

lemma deleteSession_wellFormed:
  "wellFormed s \<Longrightarrow> wellFormed (snd (deleteSession sessionId s))"
  by (auto simp: deleteSession_def live_def split: option.splits if_splits
      intro: delete_wellFormed)

lemma onSessionEvicted_wellFormed: "wellFormed s \<Longrightarrow> wellFormed (onSessionEvicted i s)"
  by (auto simp: onSessionEvicted_def split: option.splits intro: delete_wellFormed)

lemma onTransportClose_wellFormed: "wellFormed s \<Longrightarrow> wellFormed (onTransportClose i s)"
  by (auto simp: onTransportClose_def has_def intro: delete_wellFormed)

lemma onTransportError_wellFormed: "wellFormed s \<Longrightarrow> wellFormed (onTransportError i s)"
  by (auto simp: onTransportError_def has_def intro: delete_wellFormed)

lemma start_wellFormed: "wellFormed s \<Longrightarrow> wellFormed (start s)"
  by (simp add: start_def wellFormed_def)

lemma stop_wellFormed: "wellFormed s \<Longrightarrow> wellFormed (stop s)"
  by (auto simp: stop_def wellFormed_def poolCovers_def split: option.splits)

lemma step_wellFormed: "wellFormed s \<Longrightarrow> wellFormed (step a s)"
  by (cases a)
     (simp_all add: handleMCPRequest_wellFormed deleteSession_wellFormed
        onSessionEvicted_wellFormed onTransportClose_wellFormed onTransportError_wellFormed
        start_wellFormed stop_wellFormed)

lemma run_wellFormed: "wellFormed s \<Longrightarrow> wellFormed (run as s)"
  by (induction as arbitrary: s) (auto intro: step_wellFormed)

lemma reachable_wellFormed: "wellFormed (run as (newMCPHttpServer c))"
  by (rule run_wellFormed) (rule wellFormed_new)

section \<open>A call on a live channel\<close>

lemma poolServer_cached:
  "pool i = Some h \<Longrightarrow> mcpServerPool s = Some pool \<Longrightarrow> poolServer i pool s = (h, s)"
  by (simp add: poolServer_def getOrCreateServer_def)

lemma poolCovers_lookup:
  assumes "poolCovers (Some pool) ts" "map_of ts i = Some t"
  shows "pool i \<noteq> None"
proof -
  from assms(2) have "(i, t) \<in> set ts" by (rule map_of_SomeD)
  with assms(1) show ?thesis by (auto simp: poolCovers_def list_all_iff)
qed

lemma selectTransport_reuse:
  assumes "wellFormed s" "i \<noteq> []" "map_of (transports s) i = Some t"
  shows "selectTransport e (Some i) rq s = (Inr (selected (Some t) i False), touch e i s)"
proof (cases "mcpServerPool s")
  case None
  with assms show ?thesis
    by (simp add: selectTransport_def selectSingle_def has_def)
next
  case (Some pool)
  from assms(1) Some have "poolCovers (Some pool) (transports s)" by (simp add: wellFormed_def)
  from poolCovers_lookup [OF this assms(3)] obtain h where "pool i = Some h" by auto
  from poolServer_cached [OF this Some] Some assms show ?thesis
    by (simp add: selectTransport_def selectConcurrent_def has_def)
qed

lemma compatInitialize_skip:
  "compatInitialize e rq (selected t i False) s = (selected t i False, s)"
  by (simp add: compatInitialize_def selected_def split: option.splits)

lemma post_reuse:
  assumes "wellFormed s" "\<not> isPing rq" "i \<noteq> []" "map_of (transports s) i = Some t"
  shows "handleMCPRequest e (Some i) (Some rq) s =
           (clientSees (handleRequest e RealRes (ClientMsg rq)),
            (touch e i s)\<lparr>log := log s @ [HandleRequest t (Some i) RealRes (ClientMsg rq)]\<rparr>)"
  using assms(2)
  by (simp add: handleMCPRequest_def tryBlock_def selectTransport_reuse [OF assms(1,3,4)]
      compatInitialize_skip respond_forward catchError_clientSees)

lemma handshake_on_new_server:
  assumes "isInitializeRequest e rq" "\<not> isPing rq" "connect e = None" "i \<noteq> []"
  shows "\<exists>s1. handleMCPRequest e (Some i) (Some rq) (newMCPHttpServer c) =
                 (clientSees (handleRequest e RealRes (ClientMsg rq)), s1)
             \<and> transports s1 = [(i, 0)]
             \<and> transportsConstructed (log s1) = 1 \<and> serversConstructed (log s1) = 1
             \<and> mcpServerPool s1 = (if c then Some [i \<mapsto> 0] else None)
             \<and> mcpServer s1 = (if c then None else Some 0)"
  using assms
  by (cases c)
     (simp_all add: handleMCPRequest_def tryBlock_def selectTransport_def selectConcurrent_def
       selectSingle_def newMCPHttpServer_def has_def register_def poolServer_def
       getOrCreateServer_def serversConstructed_def transportsConstructed_def
       createBranch_ok compatInitialize_skip respond_forward catchError_clientSees)

lemma dom_touchSession: "dom (touchSession t i m) = dom m"
  by (auto simp: touchSession_def split: option.splits if_splits)

lemma compatInitialize_clears_notice:
  assumes "\<not> isInitializeRequest e rq" "transport sel \<noteq> None"
  shows "\<not> requireInitializeNotice (fst (compatInitialize e rq sel s))"
  using assms
  by (auto simp: compatInitialize_def split: option.splits prod.splits)

section \<open>Every call that is not a handshake is forwarded\<close>

lemma createBranch_transport:
  "createBranch e srv i ra flag s = (Inr sel, s1) \<Longrightarrow> transport sel \<noteq> None"
  by (auto simp: createBranch_def selected_def split: prod.splits sum.splits)

lemma selectConcurrent_transport:
  "selectConcurrent e pool sessionId rq s = (Inr sel, s1) \<Longrightarrow> transport sel \<noteq> None"
  unfolding selectConcurrent_def
  by (auto simp: has_def selected_def split: option.splits if_splits prod.splits
      dest: createBranch_transport)

lemma selectSingle_transport:
  "selectSingle e sessionId rq s = (Inr sel, s1) \<Longrightarrow> transport sel \<noteq> None"
  unfolding selectSingle_def
  by (auto simp: has_def selected_def split: option.splits if_splits
      dest: createBranch_transport)

lemma selectTransport_transport:
  "selectTransport e sessionId rq s = (Inr sel, s1) \<Longrightarrow> transport sel \<noteq> None"
  unfolding selectTransport_def
  by (auto split: option.splits dest: selectConcurrent_transport selectSingle_transport)

lemma compatInitialize_result:
  assumes "\<not> isInitializeRequest e rq" "transport sel = Some t"
  shows "\<exists>s2. compatInitialize e rq sel s1 = (sel\<lparr>requireInitializeNotice := False\<rparr>, s2)"
proof (cases "requireInitializeNotice sel")
  case True
  with assms show ?thesis
    by (cases "compatLoop e t (effectiveSessionId sel) versionsToTry")
       (simp add: compatInitialize_def)
next
  case False
  with assms show ?thesis by (simp add: compatInitialize_def)
qed

lemma respond_forwards:
  assumes "transport sel = Some t" "\<not> requireInitializeNotice sel"
  shows "fst (respond e sessionId rq sel s2) =
           (case threw (handleRequest e RealRes (ClientMsg rq)) of
              None \<Rightarrow> Done (wrote (handleRequest e RealRes (ClientMsg rq)))
            | Some x \<Rightarrow> Threw x (wrote (handleRequest e RealRes (ClientMsg rq))))"
  using assms by (simp add: respond_def forward_def Let_def split: option.splits)

lemma nonInit_forwarded:
  assumes "\<not> isPing rq" "\<not> isInitializeRequest e rq"
    "selectTransport e sessionId rq s = (Inr sel, s1)"
  shows "\<not> requireInitializeNotice (fst (compatInitialize e rq sel s1))"
    and "fst (handleMCPRequest e sessionId (Some rq) s) =
           clientSees (handleRequest e RealRes (ClientMsg rq))"
proof -
  from selectTransport_transport [OF assms(3)] obtain t where t: "transport sel = Some t"
    by auto
  from compatInitialize_result [OF assms(2) t] obtain s2 where
    c: "compatInitialize e rq sel s1 = (sel\<lparr>requireInitializeNotice := False\<rparr>, s2)" by blast
  then show "\<not> requireInitializeNotice (fst (compatInitialize e rq sel s1))" by simp
  have "fst (respond e sessionId rq (sel\<lparr>requireInitializeNotice := False\<rparr>) s2) =
           (case threw (handleRequest e RealRes (ClientMsg rq)) of
              None \<Rightarrow> Done (wrote (handleRequest e RealRes (ClientMsg rq)))
            | Some x \<Rightarrow> Threw x (wrote (handleRequest e RealRes (ClientMsg rq))))"
    by (rule respond_forwards) (simp_all add: t)
  with assms(1,3) c show "fst (handleMCPRequest e sessionId (Some rq) s) =
           clientSees (handleRequest e RealRes (ClientMsg rq))"
    by (cases "respond e sessionId rq (sel\<lparr>requireInitializeNotice := False\<rparr>) s2")
       (simp add: handleMCPRequest_def tryBlock_def catchError_clientSees [symmetric])
qed

section \<open>The timers of the worker manager\<close>

lemma settle_length [simp]: "length (settle p v ps) = length ps"
  by (simp add: settle_def)


lemma callback_frame [simp]:
  "pendingTasks (callback p res w) = pendingTasks w"
  "timers (callback p res w) = timers w"
  "workers (callback p res w) = workers w"
  "length (promises (callback p res w)) = length (promises w)"
  by (simp_all add: callback_def)



lemma settle_keeps_settled:
  "q < length ps \<Longrightarrow> ps ! q \<noteq> Pending \<Longrightarrow> settle p v ps ! q \<noteq> Pending"
  by (auto simp: settle_def nth_list_update)

lemma settle_settles:
  "v \<noteq> Pending \<Longrightarrow> p < length ps \<Longrightarrow> settle p v ps ! p \<noteq> Pending"
  by (auto simp: settle_def)






lemma stillStored_workers [simp]:
  "stillStored k p (w\<lparr>workers := ws\<rparr>) = stillStored k p w"
  by (simp add: stillStored_def)




section \<open>Evaluations\<close>

lemma versions_eval:
  "tried (sdk [''2024-11-05'', ''1.0''] out) versionsToTry = [''2025-06-18'', ''2024-11-05'']"
  "tried (sdk [] out) versionsToTry = [''2025-06-18'', ''2024-11-05'', ''1.0'']"
  by (simp_all add: tried_def versionsToTry_def accepts_def sdk_def)

lemma afterHandshake_eval:
  "transports afterHandshake = [(''S9'', 0)]"
  "connectionCount afterHandshake = 1"
  "sessionOf afterHandshake ''S9'' =
     Some \<lparr>ident = ''S9'', createdAt = 1000, lastActivity = 1000, requestCount = 0\<rparr>"
  "sessionOf afterHandshake ''S1'' = None"
  "log afterHandshake =
     [NewServer 0 (Some ''S9''), NewTransport 0 ''S9'', Connect 0 0,
      HandleRequest 0 (Some ''S9'') RealRes (ClientMsg initializeRequest)]"
  by (simp_all add: afterHandshake_def eval_defs)

lemma twoSessions_eval:
  "pendingTasks twoSessions = [(''t1'', 0), (''t2'', 1)]"
  "promises twoSessions = [Pending, Pending]"
  "workers twoSessions = [''A'', ''B'']"
  "posted twoSessions = [(''A'', taskA), (''B'', taskB)]"
  "invoked twoSessions = []"
  by (simp_all add: worker_defs)

section \<open>The claims about the request router\<close>

text \<open>
  Claim C1. Take a server in a state reachable from its constructor and a POST call
  that is neither a ping nor a handshake, for which the router creates and binds a new
  channel: there is no live channel for the call's identifier and connecting the new
  transport does not throw. Then one transport is constructed and bound under the
  identifier the call works under, and the calls of \<open>handleRequest\<close> the router makes are exactly: one
  synthesized initialize per version of \<open>versionsToTry\<close>, in the order of that list, up
  to and including the first version the handler accepts (all of them when none is
  accepted), each through the new transport with the null response and the identifier
  in the header; then the original request, through the same transport with the real
  response. The client receives what that last call wrote, or the router's 500 when it
  threw before writing: the outcome of no synthesized initialize reaches the client.
  (\<open>tried\<close> is a prefix of the list, ends with the first accepted version when there
  is one, and is the whole list when every version is rejected: lemmas
  \<open>tried_in_order\<close>, \<open>tried_stops_at_first_accepted\<close>, \<open>tried_all_rejected\<close>.)
\<close>

theorem compat_initialize_then_forward:
  assumes "s = run as (newMCPHttpServer c)"
    and "\<not> isPing rq" and "\<not> isInitializeRequest e rq"
    and "live (transports s) sessionId = None"
    and "connect e = None"
    and "handleMCPRequest e sessionId (Some rq) s = (r, s')"
  shows "map_of (transports s') (assignedId e s sessionId) = Some (transportsConstructed (log s))
       \<and> transportsConstructed (log s') = Suc (transportsConstructed (log s))
       \<and> calls s s' =
            map (\<lambda>v. HandleRequest (transportsConstructed (log s))
                       (Some (assignedId e s sessionId)) NullRes (CompatInit v))
              (tried e versionsToTry)
            @ [HandleRequest (transportsConstructed (log s)) sessionId RealRes (ClientMsg rq)]
       \<and> r = clientSees (handleRequest e RealRes (ClientMsg rq))"
proof -
  have "wellFormed s" unfolding assms(1) by (rule reachable_wellFormed)
  then have "mcpServerPool s \<noteq> None \<or> mcpServer s \<noteq> None" by (simp add: wellFormed_def)
  from post_create_nonInit [OF assms(2-5) this] assms(6) show ?thesis by auto
qed

text \<open>
  The theorem at two calls on a new server. In concurrent mode, a call without
  identifier to a handler that rejects the first version and accepts the second: two
  attempts, then the forward. In non-concurrent mode, a call bearing \<open>S9\<close> to a
  handler that rejects every version and then throws on the request itself: three
  attempts, the forward all the same, and the 500 of the forward's error.
\<close>

theorem compat_initialize_then_forward_witness:
  "\<not> isPing toolsList
   \<and> \<not> isInitializeRequest (sdk [''2024-11-05'', ''1.0''] (written ''6f1c'')) toolsList
   \<and> \<not> isInitializeRequest (sdk [] rejected) toolsList
   \<and> live (transports (newMCPHttpServer True)) None = None
   \<and> live (transports (newMCPHttpServer False)) (Some ''S9'') = None
   \<and> connect (sdk [''2024-11-05'', ''1.0''] (written ''6f1c'')) = None
   \<and> connect (sdk [] rejected) = None
   \<and> calls (newMCPHttpServer True)
     (snd (handleMCPRequest (sdk [''2024-11-05'', ''1.0''] (written ''6f1c'')) None (Some toolsList)
            (newMCPHttpServer True)))
    = [HandleRequest 0 (Some ''6f1c'') NullRes (CompatInit ''2025-06-18''),
       HandleRequest 0 (Some ''6f1c'') NullRes (CompatInit ''2024-11-05''),
       HandleRequest 0 None RealRes (ClientMsg toolsList)]
   \<and> fst (handleMCPRequest (sdk [''2024-11-05'', ''1.0''] (written ''6f1c'')) None (Some toolsList)
            (newMCPHttpServer True)) = wrote (written ''6f1c'')
   \<and> calls (newMCPHttpServer False)
     (snd (handleMCPRequest (sdk [] rejected) (Some ''S9'') (Some toolsList)
            (newMCPHttpServer False)))
    = [HandleRequest 0 (Some ''S9'') NullRes (CompatInit ''2025-06-18''),
       HandleRequest 0 (Some ''S9'') NullRes (CompatInit ''2024-11-05''),
       HandleRequest 0 (Some ''S9'') NullRes (CompatInit ''1.0''),
       HandleRequest 0 (Some ''S9'') RealRes (ClientMsg toolsList)]
   \<and> fst (handleMCPRequest (sdk [] rejected) (Some ''S9'') (Some toolsList)
            (newMCPHttpServer False))
    = Some (internalError (Error ''Server not initialized''))"
proof -
  let ?e1 = "sdk [''2024-11-05'', ''1.0''] (written ''6f1c'')" and ?e2 = "sdk [] rejected"
  have a: "\<not> isPing toolsList" "\<not> isInitializeRequest ?e1 toolsList"
    "\<not> isInitializeRequest ?e2 toolsList" "connect ?e1 = None" "connect ?e2 = None"
    by (simp_all add: isPing_def toolsList_def sdk_def)
  have l: "live (transports (newMCPHttpServer True)) None = None"
    "live (transports (newMCPHttpServer False)) (Some ''S9'') = None"
    by (simp_all add: live_def newMCPHttpServer_def)
  have r: "newMCPHttpServer c = run [] (newMCPHttpServer c)" for c by simp
  have i: "assignedId ?e1 (newMCPHttpServer True) None = ''6f1c''"
    "assignedId ?e2 (newMCPHttpServer False) (Some ''S9'') = ''S9''"
    by (simp_all add: assignedId_def sdk_def)
  have t: "transportsConstructed (log (newMCPHttpServer c)) = 0" for c
    by (simp add: transportsConstructed_def newMCPHttpServer_def)
  have o: "handleRequest ?e1 RealRes (ClientMsg toolsList) = written ''6f1c''"
    "handleRequest ?e2 RealRes (ClientMsg toolsList) = rejected"
    by (simp_all add: sdk_def)
  have c: "clientSees (written ''6f1c'') = wrote (written ''6f1c'')"
    "clientSees rejected = Some (internalError (Error ''Server not initialized''))"
    by (simp_all add: clientSees_def written_def rejected_def)
  from compat_initialize_then_forward [OF r a(1) a(2) l(1) a(4) surjective_pairing]
       compat_initialize_then_forward [OF r a(1) a(3) l(2) a(5) surjective_pairing] a l
  show ?thesis by (simp add: i t o c versions_eval)
qed

text \<open>
  Claim C2, as stated, fails on the code: a non-handshake call bearing the unknown
  identifier \<open>S9\<close> binds a new channel under \<open>S9\<close>, but the Session Registry has no
  record for \<open>S9\<close> afterwards. Only the handshake branches call
  \<open>getOrCreateSession\<close>.
\<close>

theorem orphan_call_creates_no_session:
  "sessionOf (snd (handleMCPRequest (sdk [''2025-06-18''] (written ''S9'')) (Some ''S9'')
                     (Some toolsList) (newMCPHttpServer True))) ''S9'' = None
   \<and> map_of (transports (snd (handleMCPRequest (sdk [''2025-06-18''] (written ''S9'')) (Some ''S9'')
                     (Some toolsList) (newMCPHttpServer True)))) ''S9'' = Some 0
   \<and> \<not> isPing toolsList
   \<and> \<not> isInitializeRequest (sdk [''2025-06-18''] (written ''S9'')) toolsList
   \<and> live (transports (newMCPHttpServer True)) (Some ''S9'') = None"
  by (simp add: eval_defs)

text \<open>
  Claim C2, amended. For a server in a reachable state and a call that is neither a
  ping (which has priority and returns at once) nor a handshake, bearing a non-empty
  identifier \<open>i\<close> with no live channel, when
  connecting the new transport does not throw: the router constructs one transport and
  binds it under \<open>i\<close>, raises the connection counter by one, and leaves the Session
  Registry as it was. It does not dispatch the request at once: the synthesized
  initializes come first, then the request. Whatever the handler does with the
  initializes and with the request, the call ends with what the transport wrote, with
  the 500 of the error it threw before writing, or with no response written; it never
  ends in an exception.
\<close>

theorem orphan_call_binds_new_channel:
  assumes "s = run as (newMCPHttpServer c)"
    and "\<not> isPing rq" and "\<not> isInitializeRequest e rq"
    and "i \<noteq> []" and "map_of (transports s) i = None"
    and "connect e = None"
    and "handleMCPRequest e (Some i) (Some rq) s = (r, s')"
  shows "map_of (transports s') i = Some (transportsConstructed (log s))
       \<and> transportsConstructed (log s') = Suc (transportsConstructed (log s))
       \<and> connectionCount s' = connectionCount s + 1
       \<and> sessionManager s' = sessionManager s
       \<and> calls s s' =
            map (\<lambda>v. HandleRequest (transportsConstructed (log s)) (Some i) NullRes (CompatInit v))
              (tried e versionsToTry)
            @ [HandleRequest (transportsConstructed (log s)) (Some i) RealRes (ClientMsg rq)]
       \<and> r = (case threw (handleRequest e RealRes (ClientMsg rq)) of
                None \<Rightarrow> wrote (handleRequest e RealRes (ClientMsg rq))
              | Some x \<Rightarrow>
                  (case wrote (handleRequest e RealRes (ClientMsg rq)) of
                     None \<Rightarrow> Some (internalError x)
                   | Some w \<Rightarrow> Some w))"
proof -
  have "wellFormed s" unfolding assms(1) by (rule reachable_wellFormed)
  then have srv: "mcpServerPool s \<noteq> None \<or> mcpServer s \<noteq> None" by (simp add: wellFormed_def)
  have lv: "live (transports s) (Some i) = None" using assms(4,5) by (simp add: live_def)
  have ai: "assignedId e s (Some i) = i" using assms(4) by (simp add: assignedId_def)
  have sm: "sessionsAfterCreate e (Some i) s = sessionManager s"
    using assms(4) by (simp add: sessionsAfterCreate_def)
  from post_create_nonInit [OF assms(2,3) lv assms(6) srv] assms(7) show ?thesis
    by (auto simp: ai sm clientSees_def)
qed

text \<open>
  The theorem at a call bearing \<open>S9\<close> on a new concurrent server whose handler
  rejects every version and throws on the request.
\<close>

theorem orphan_call_binds_new_channel_witness:
  "\<not> isPing toolsList \<and> \<not> isInitializeRequest (sdk [] rejected) toolsList
   \<and> map_of (transports (newMCPHttpServer True)) ''S9'' = None
   \<and> connect (sdk [] rejected) = None
   \<and> map_of (transports (snd (handleMCPRequest (sdk [] rejected) (Some ''S9'') (Some toolsList)
                                 (newMCPHttpServer True)))) ''S9'' = Some 0
   \<and> connectionCount (snd (handleMCPRequest (sdk [] rejected) (Some ''S9'') (Some toolsList)
                                 (newMCPHttpServer True))) = 1
   \<and> sessionManager (snd (handleMCPRequest (sdk [] rejected) (Some ''S9'') (Some toolsList)
                                 (newMCPHttpServer True))) = Some Map.empty
   \<and> fst (handleMCPRequest (sdk [] rejected) (Some ''S9'') (Some toolsList)
            (newMCPHttpServer True))
      = Some \<lparr>status = 500, sessionHeader = None,
              body = RpcError (- 32603) ''Internal error: Server not initialized'' None None\<rparr>"
proof -
  have r: "newMCPHttpServer True = run [] (newMCPHttpServer True)" by simp
  have a: "\<not> isPing toolsList" "\<not> isInitializeRequest (sdk [] rejected) toolsList"
    "''S9'' \<noteq> []" "map_of (transports (newMCPHttpServer True)) ''S9'' = None"
    "connect (sdk [] rejected) = None"
    by (simp_all add: isPing_def toolsList_def sdk_def newMCPHttpServer_def)
  have v: "connectionCount (newMCPHttpServer True) = 0"
    "sessionManager (newMCPHttpServer True) = Some Map.empty"
    "transportsConstructed (log (newMCPHttpServer True)) = 0"
    "handleRequest (sdk [] rejected) RealRes (ClientMsg toolsList) = rejected"
    "threw rejected = Some (Error ''Server not initialized'')" "wrote rejected = None"
    by (simp_all add: newMCPHttpServer_def transportsConstructed_def sdk_def rejected_def)
  from orphan_call_binds_new_channel [OF r a surjective_pairing] a
  show ?thesis by (simp add: v internalError_def)
qed

text \<open>
  Claim C3. The states of the router are taken in priority order, so the call is not
  the keepalive ping of state 1. For a server in a reachable state and a call bearing
  an identifier \<open>i\<close> whose live channel is \<open>t\<close>: the session is touched, the only call
  made on an SDK object is \<open>handleRequest\<close> on \<open>t\<close> with the real response, and no
  transport or server is constructed; bindings, pool and counter are unchanged. In
  particular, in either mode, after a handshake bearing \<open>S1\<close> on a new server (whose
  connect does not throw) and any second call bearing \<open>S1\<close>, one transport and one
  server have been constructed in all, the binding and the pool are those the first
  call left, and the second call, unless it is a ping, is dispatched through the
  transport the first call created.
\<close>

theorem live_channel_reused:
  "(s = run as (newMCPHttpServer c) \<and> \<not> isPing rq \<and> i \<noteq> [] \<and>
    map_of (transports s) i = Some t \<and>
    handleMCPRequest e (Some i) (Some rq) s = (r, s') \<longrightarrow>
      sessionManager s' = map_option (touchSession (now e) i) (sessionManager s)
    \<and> log s' = log s @ [HandleRequest t (Some i) RealRes (ClientMsg rq)]
    \<and> transportsConstructed (log s') = transportsConstructed (log s)
    \<and> serversConstructed (log s') = serversConstructed (log s)
    \<and> transports s' = transports s \<and> mcpServerPool s' = mcpServerPool s
    \<and> mcpServer s' = mcpServer s \<and> connectionCount s' = connectionCount s
    \<and> r = clientSees (handleRequest e RealRes (ClientMsg rq)))
   \<and>
   (isInitializeRequest e1 rq1 \<and> \<not> isPing rq1 \<and> connect e1 = None \<and>
    s1 = snd (handleMCPRequest e1 (Some ''S1'') (Some rq1) (newMCPHttpServer c')) \<and>
    s2 = snd (handleMCPRequest e2 (Some ''S1'') (Some rq2) s1) \<longrightarrow>
      transportsConstructed (log s2) = 1 \<and> serversConstructed (log s2) = 1
    \<and> map_of (transports s1) ''S1'' = Some 0
    \<and> transports s2 = transports s1 \<and> mcpServerPool s2 = mcpServerPool s1
    \<and> mcpServer s2 = mcpServer s1
    \<and> calls s1 s2 = (if isPing rq2 then []
                       else [HandleRequest 0 (Some ''S1'') RealRes (ClientMsg rq2)]))"
proof (intro conjI impI)
  assume a: "s = run as (newMCPHttpServer c) \<and> \<not> isPing rq \<and> i \<noteq> [] \<and>
    map_of (transports s) i = Some t \<and> handleMCPRequest e (Some i) (Some rq) s = (r, s')"
  then have "wellFormed s" by (simp add: reachable_wellFormed)
  from post_reuse [OF this, of rq i t e] a
  have s': "s' = (touch e i s)\<lparr>log := log s @ [HandleRequest t (Some i) RealRes (ClientMsg rq)]\<rparr>"
    and r: "r = clientSees (handleRequest e RealRes (ClientMsg rq))" by auto
  show "sessionManager s' = map_option (touchSession (now e) i) (sessionManager s)"
    unfolding s' by (simp add: touch_def split: option.splits)
  show "log s' = log s @ [HandleRequest t (Some i) RealRes (ClientMsg rq)]"
    unfolding s' by simp
  show "transportsConstructed (log s') = transportsConstructed (log s)"
    "serversConstructed (log s') = serversConstructed (log s)"
    unfolding s' by (simp_all add: transportsConstructed_def serversConstructed_def)
  show "transports s' = transports s" "mcpServerPool s' = mcpServerPool s"
    "mcpServer s' = mcpServer s" "connectionCount s' = connectionCount s"
    unfolding s' by simp_all
  show "r = clientSees (handleRequest e RealRes (ClientMsg rq))" by (rule r)
next
  assume b: "isInitializeRequest e1 rq1 \<and> \<not> isPing rq1 \<and> connect e1 = None \<and>
    s1 = snd (handleMCPRequest e1 (Some ''S1'') (Some rq1) (newMCPHttpServer c')) \<and>
    s2 = snd (handleMCPRequest e2 (Some ''S1'') (Some rq2) s1)"
  from b handshake_on_new_server [of e1 rq1 "''S1''" c']
  have s1: "transports s1 = [(''S1'', 0)]" "transportsConstructed (log s1) = 1"
    "serversConstructed (log s1) = 1" by auto
  have w: "wellFormed s1"
    using b handleMCPRequest_wellFormed [OF wellFormed_new] by simp
  have m: "map_of (transports s1) ''S1'' = Some 0" by (simp add: s1)
  have s2: "s2 = (if isPing rq2 then touch e2 ''S1'' s1
     else (touch e2 ''S1'' s1)\<lparr>log := log s1 @ [HandleRequest 0 (Some ''S1'') RealRes (ClientMsg rq2)]\<rparr>)"
  proof (cases "isPing rq2")
    case True
    with b show ?thesis by (simp add: handleMCPRequest_def tryBlock_def ping_def)
  next
    case False
    from post_reuse [OF w False _ m, of e2] b False show ?thesis by simp
  qed
  show "transportsConstructed (log s2) = 1" "serversConstructed (log s2) = 1"
    unfolding s2 using s1 by (simp_all add: transportsConstructed_def serversConstructed_def)
  show "map_of (transports s1) ''S1'' = Some 0" by (rule m)
  show "transports s2 = transports s1" "mcpServerPool s2 = mcpServerPool s1"
    "mcpServer s2 = mcpServer s1" unfolding s2 by simp_all
  show "calls s1 s2 = (if isPing rq2 then []
                       else [HandleRequest 0 (Some ''S1'') RealRes (ClientMsg rq2)])"
    unfolding s2 by (simp add: calls_def)
qed

text \<open>
  The theorem at a tool call bearing \<open>S9\<close> after the handshake of \<open>S9\<close>, and at a
  handshake of \<open>S1\<close> followed by a tool call of \<open>S1\<close> on a non-concurrent server.
\<close>

theorem live_channel_reused_witness:
  "\<not> isPing toolsList \<and> map_of (transports afterHandshake) ''S9'' = Some 0
   \<and> log (snd (handleMCPRequest (sdk [] (written ''S9'')) (Some ''S9'') (Some toolsList) afterHandshake))
      = log afterHandshake @ [HandleRequest 0 (Some ''S9'') RealRes (ClientMsg toolsList)]
   \<and> transports (snd (handleMCPRequest (sdk [] (written ''S9'')) (Some ''S9'') (Some toolsList)
        afterHandshake)) = [(''S9'', 0)]
   \<and> fst (handleMCPRequest (sdk [] (written ''S9'')) (Some ''S9'') (Some toolsList) afterHandshake)
      = wrote (written ''S9'')
   \<and> isInitializeRequest (sdk [] (written ''S9'')) initializeRequest \<and> \<not> isPing initializeRequest
   \<and> connect (sdk [] (written ''S9'')) = None
   \<and> transportsConstructed (log (snd (handleMCPRequest (sdk [] rejected) (Some ''S1'') (Some toolsList)
        (snd (handleMCPRequest (sdk [] (written ''S9'')) (Some ''S1'') (Some initializeRequest)
               (newMCPHttpServer False)))))) = 1
   \<and> serversConstructed (log (snd (handleMCPRequest (sdk [] rejected) (Some ''S1'') (Some toolsList)
        (snd (handleMCPRequest (sdk [] (written ''S9'')) (Some ''S1'') (Some initializeRequest)
               (newMCPHttpServer False)))))) = 1"
proof -
  let ?e = "sdk [] (written ''S9'')"
  let ?s1 = "snd (handleMCPRequest ?e (Some ''S1'') (Some initializeRequest) (newMCPHttpServer False))"
  let ?s2 = "snd (handleMCPRequest (sdk [] rejected) (Some ''S1'') (Some toolsList) ?s1)"
  have a: "\<not> isPing toolsList" "map_of (transports afterHandshake) ''S9'' = Some 0"
    "isInitializeRequest ?e initializeRequest" "\<not> isPing initializeRequest" "connect ?e = None"
    by (simp_all add: isPing_def toolsList_def initializeRequest_def sdk_def afterHandshake_eval)
  have p1: "afterHandshake = run [Post ?e (Some ''S9'') (Some initializeRequest)] (newMCPHttpServer True)
      \<and> \<not> isPing toolsList \<and> ''S9'' \<noteq> [] \<and> map_of (transports afterHandshake) ''S9'' = Some 0
      \<and> handleMCPRequest ?e (Some ''S9'') (Some toolsList) afterHandshake =
          (fst (handleMCPRequest ?e (Some ''S9'') (Some toolsList) afterHandshake),
           snd (handleMCPRequest ?e (Some ''S9'') (Some toolsList) afterHandshake))"
    using a by (simp add: afterHandshake_def)
  have p2: "isInitializeRequest ?e initializeRequest \<and> \<not> isPing initializeRequest \<and>
      connect ?e = None \<and> ?s1 = ?s1 \<and> ?s2 = ?s2"
    using a by simp
  have v: "clientSees (handleRequest ?e RealRes (ClientMsg toolsList)) = wrote (written ''S9'')"
    by (simp add: clientSees_def sdk_def written_def)
  note t1 = live_channel_reused [where s = afterHandshake and rq = toolsList and i = "''S9''" and t = 0
      and e = ?e, THEN conjunct1, rule_format, OF p1]
  note t2 = live_channel_reused [where ?e1.0 = ?e and ?rq1.0 = initializeRequest and ?s1.0 = ?s1
      and ?s2.0 = ?s2 and ?e2.0 = "sdk [] rejected" and ?rq2.0 = toolsList and c' = False,
      THEN conjunct2, rule_format, OF p2]
  from t1 t2 a show ?thesis by (simp add: v afterHandshake_eval)
qed

text \<open>
  Claim C4. A call whose method is \<open>session/ping\<close> or \<open>status/ping\<close> is answered at
  once with status 200. When the identifier is present (and not empty) the session is
  touched, which changes no set of keys: the Session Registry has the sessions it had.
  The bindings, the counter, the pool, the single server and the log of calls on SDK
  objects are unchanged, so no Session, Channel or Handler is created. The Transport
  Registry is not consulted: with any other content of the registry the call gives the
  same response and the same changes.
\<close>

theorem ping_creates_nothing:
  assumes "isPing rq" and "handleMCPRequest e sessionId (Some rq) s = (r, s')"
  shows "r = Some \<lparr>status = 200,
                   sessionHeader = (if truthy sessionId then sessionId else None),
                   body = PingResult (rid rq) (if truthy sessionId then sessionId else None)\<rparr>
       \<and> sessionManager s' =
           (case sessionId of
              None \<Rightarrow> sessionManager s
            | Some i \<Rightarrow> if i = [] then sessionManager s
                        else map_option (touchSession (now e) i) (sessionManager s))
       \<and> map_option dom (sessionManager s') = map_option dom (sessionManager s)
       \<and> transports s' = transports s \<and> connectionCount s' = connectionCount s
       \<and> mcpServerPool s' = mcpServerPool s \<and> mcpServer s' = mcpServer s
       \<and> log s' = log s
       \<and> handleMCPRequest e sessionId (Some rq) (s\<lparr>transports := ts\<rparr>)
           = (r, s'\<lparr>transports := ts\<rparr>)"
  using assms
  by (auto simp: handleMCPRequest_def tryBlock_def ping_def touch_def dom_touchSession
      split: option.splits)

text \<open>
  The theorem at a ping bearing \<open>S9\<close>, at time 2000, after the handshake of \<open>S9\<close> at
  time 1000.
\<close>

theorem ping_creates_nothing_witness:
  "isPing pingRequest
   \<and> fst (handleMCPRequest ((sdk [] rejected)\<lparr>now := 2000\<rparr>) (Some ''S9'') (Some pingRequest)
           afterHandshake)
      = Some \<lparr>status = 200, sessionHeader = Some ''S9'',
               body = PingResult (Some (IdNum 3)) (Some ''S9'')\<rparr>
   \<and> sessionOf (snd (handleMCPRequest ((sdk [] rejected)\<lparr>now := 2000\<rparr>) (Some ''S9'')
        (Some pingRequest) afterHandshake)) ''S9''
      = Some \<lparr>ident = ''S9'', createdAt = 1000, lastActivity = 2000, requestCount = 0\<rparr>
   \<and> transports (snd (handleMCPRequest ((sdk [] rejected)\<lparr>now := 2000\<rparr>) (Some ''S9'')
        (Some pingRequest) afterHandshake)) = [(''S9'', 0)]
   \<and> log (snd (handleMCPRequest ((sdk [] rejected)\<lparr>now := 2000\<rparr>) (Some ''S9'')
        (Some pingRequest) afterHandshake)) = log afterHandshake"
proof -
  have p: "isPing pingRequest" by (simp add: isPing_def pingRequest_def)
  have m: "sessionManager afterHandshake =
      Some [''S9'' \<mapsto> \<lparr>ident = ''S9'', createdAt = 1000, lastActivity = 1000, requestCount = 0\<rparr>]"
    by (simp add: afterHandshake_def eval_defs)
  from ping_creates_nothing [OF p surjective_pairing, of "(sdk [] rejected)\<lparr>now := 2000\<rparr>" "Some ''S9''"
      afterHandshake "[]"] p
  show ?thesis
    by (simp add: pingRequest_def afterHandshake_eval sessionOf_def m touchSession_def)
qed

text \<open>
  Claim C5, as stated, fails on the code. A call without session header that is not a
  handshake gets a channel bound under the generated identifier \<open>6f1c\<close>; when the
  transport throws on the forwarded request before writing anything, the client
  receives the router's 500 \<open>Internal error\<close>, which carries no identifier in header
  or payload: neither an application result nor the \<open>not initialized\<close> error. When
  the transport neither writes nor throws, the router writes nothing.
\<close>

theorem headerless_call_ends_in_500:
  "\<not> isPing toolsList \<and> \<not> isInitializeRequest (sdk [] crashed) toolsList
   \<and> wrote (handleRequest (sdk [] crashed) RealRes (ClientMsg toolsList)) = None
   \<and> fst (handleMCPRequest (sdk [] crashed) None (Some toolsList) (newMCPHttpServer True))
      = Some \<lparr>status = 500, sessionHeader = None,
              body = RpcError (- 32603) ''Internal error: socket hang up'' None None\<rparr>
   \<and> map_of (transports (snd (handleMCPRequest (sdk [] crashed) None (Some toolsList)
        (newMCPHttpServer True)))) ''6f1c'' = Some 0
   \<and> fst (handleMCPRequest (sdk [] silent) None (Some toolsList) (newMCPHttpServer True))
      = None"
  by (simp add: eval_defs crashed_def silent_def)

text \<open>
  Claim C5, amended. No call remains unresolved after the compatibility step: for
  every call that is neither a ping nor a handshake and for which the selection of a
  transport does not throw, \<open>requireInitializeNotice\<close> is clear when the router reaches
  line 746, so the router never sends its \<open>not initialized\<close> error and always forwards
  the request. In particular a call without session header that is neither a ping nor
  a handshake, on a server in a reachable state, when connecting the new transport
  does not throw, gets a new transport bound under the generated identifier; the
  synthesized initializes and then the request go through it; and the client receives
  what the transport wrote for the request, or, when the transport threw before
  writing anything, the 500 \<open>Internal error\<close> response, which carries no session
  identifier, or nothing when the transport neither wrote nor threw.
\<close>

theorem non_handshake_call_forwarded:
  "(\<not> isPing rq \<and> \<not> isInitializeRequest e rq \<and>
    selectTransport e sessionId rq s0 = (Inr sel, s1) \<longrightarrow>
      \<not> requireInitializeNotice (fst (compatInitialize e rq sel s1))
    \<and> fst (handleMCPRequest e sessionId (Some rq) s0) =
        clientSees (handleRequest e RealRes (ClientMsg rq)))
   \<and>
   (s = run as (newMCPHttpServer c) \<and> \<not> isPing rq \<and> \<not> isInitializeRequest e rq \<and>
    connect e = None \<and> handleMCPRequest e None (Some rq) s = (r, s') \<longrightarrow>
      map_of (transports s') (randomUUID e) = Some (transportsConstructed (log s))
    \<and> calls s s' =
         map (\<lambda>v. HandleRequest (transportsConstructed (log s)) (Some (randomUUID e))
                    NullRes (CompatInit v)) (tried e versionsToTry)
         @ [HandleRequest (transportsConstructed (log s)) None RealRes (ClientMsg rq)]
    \<and> r = (case threw (handleRequest e RealRes (ClientMsg rq)) of
             None \<Rightarrow> wrote (handleRequest e RealRes (ClientMsg rq))
           | Some x \<Rightarrow>
               (case wrote (handleRequest e RealRes (ClientMsg rq)) of
                  None \<Rightarrow>
                    Some \<lparr>status = 500, sessionHeader = None,
                          body = RpcError (- 32603)
                                   (''Internal error: '' @
                                      (case x of Error m \<Rightarrow> m | NonError \<Rightarrow> ''Unknown error''))
                                   None None\<rparr>
                | Some w \<Rightarrow> Some w)))"
proof (intro conjI impI)
  assume a: "\<not> isPing rq \<and> \<not> isInitializeRequest e rq \<and>
    selectTransport e sessionId rq s0 = (Inr sel, s1)"
  then have np: "\<not> isPing rq" and ni: "\<not> isInitializeRequest e rq"
    and st: "selectTransport e sessionId rq s0 = (Inr sel, s1)" by blast+
  show "\<not> requireInitializeNotice (fst (compatInitialize e rq sel s1))"
    by (rule nonInit_forwarded(1) [OF np ni st])
  show "fst (handleMCPRequest e sessionId (Some rq) s0) =
        clientSees (handleRequest e RealRes (ClientMsg rq))"
    by (rule nonInit_forwarded(2) [OF np ni st])
next
  assume a: "s = run as (newMCPHttpServer c) \<and> \<not> isPing rq \<and> \<not> isInitializeRequest e rq \<and>
    connect e = None \<and> handleMCPRequest e None (Some rq) s = (r, s')"
  then have "wellFormed s" by (simp add: reachable_wellFormed)
  then have srv: "mcpServerPool s \<noteq> None \<or> mcpServer s \<noteq> None"
    by (simp add: wellFormed_def)
  have lv: "live (transports s) None = None" by (simp add: live_def)
  have ai: "assignedId e s None = randomUUID e" by (simp add: assignedId_def)
  from a have np: "\<not> isPing rq" and ni: "\<not> isInitializeRequest e rq" and co: "connect e = None"
    and h: "handleMCPRequest e None (Some rq) s = (r, s')" by blast+
  from post_create_nonInit [OF np ni lv co srv] h
  have m: "map_of (transports s') (assignedId e s None) = Some (transportsConstructed (log s))"
    and c: "calls s s' =
               map (\<lambda>v. HandleRequest (transportsConstructed (log s))
                          (Some (assignedId e s None)) NullRes (CompatInit v)) (tried e versionsToTry)
               @ [HandleRequest (transportsConstructed (log s)) None RealRes (ClientMsg rq)]"
    and r: "r = clientSees (handleRequest e RealRes (ClientMsg rq))"
    by auto
  show "map_of (transports s') (randomUUID e) = Some (transportsConstructed (log s))"
    using m by (simp only: ai)
  show "calls s s' =
         map (\<lambda>v. HandleRequest (transportsConstructed (log s)) (Some (randomUUID e))
                    NullRes (CompatInit v)) (tried e versionsToTry)
         @ [HandleRequest (transportsConstructed (log s)) None RealRes (ClientMsg rq)]"
    using c by (simp only: ai)
  show "r = (case threw (handleRequest e RealRes (ClientMsg rq)) of
             None \<Rightarrow> wrote (handleRequest e RealRes (ClientMsg rq))
           | Some x \<Rightarrow>
               (case wrote (handleRequest e RealRes (ClientMsg rq)) of
                  None \<Rightarrow>
                    Some \<lparr>status = 500, sessionHeader = None,
                          body = RpcError (- 32603)
                                   (''Internal error: '' @
                                      (case x of Error m \<Rightarrow> m | NonError \<Rightarrow> ''Unknown error''))
                                   None None\<rparr>
                | Some w \<Rightarrow> Some w))"
    unfolding r by (simp add: clientSees_def internalError_def split: option.splits)
qed

text \<open>
  The theorem at a tool call without header on a new server: in concurrent mode with a
  transport that throws on the request, in non-concurrent mode with a handler that
  accepts the last version only and answers the request.
\<close>

theorem non_handshake_call_forwarded_witness:
  "\<not> isPing toolsList \<and> \<not> isInitializeRequest (sdk [] crashed) toolsList
   \<and> selectTransport (sdk [] crashed) None toolsList (newMCPHttpServer True)
      = (Inr \<lparr>transport = Some 0, effectiveSessionId = Some ''6f1c'',
               requireInitializeNotice = True\<rparr>,
         snd (selectTransport (sdk [] crashed) None toolsList (newMCPHttpServer True)))
   \<and> \<not> requireInitializeNotice (fst (compatInitialize (sdk [] crashed) toolsList
        \<lparr>transport = Some 0, effectiveSessionId = Some ''6f1c'', requireInitializeNotice = True\<rparr>
        (snd (selectTransport (sdk [] crashed) None toolsList (newMCPHttpServer True)))))
   \<and> fst (handleMCPRequest (sdk [] crashed) None (Some toolsList) (newMCPHttpServer True))
      = Some (internalError (Error ''socket hang up''))
   \<and> \<not> isInitializeRequest (sdk [''1.0''] (written ''6f1c'')) toolsList
   \<and> connect (sdk [''1.0''] (written ''6f1c'')) = None
   \<and> map_of (transports (snd (handleMCPRequest (sdk [''1.0''] (written ''6f1c'')) None
        (Some toolsList) (newMCPHttpServer False)))) ''6f1c'' = Some 0
   \<and> calls (newMCPHttpServer False)
        (snd (handleMCPRequest (sdk [''1.0''] (written ''6f1c'')) None (Some toolsList)
               (newMCPHttpServer False)))
      = [HandleRequest 0 (Some ''6f1c'') NullRes (CompatInit ''2025-06-18''),
         HandleRequest 0 (Some ''6f1c'') NullRes (CompatInit ''2024-11-05''),
         HandleRequest 0 (Some ''6f1c'') NullRes (CompatInit ''1.0''),
         HandleRequest 0 None RealRes (ClientMsg toolsList)]
   \<and> fst (handleMCPRequest (sdk [''1.0''] (written ''6f1c'')) None (Some toolsList)
            (newMCPHttpServer False))
      = Some \<lparr>status = 200, sessionHeader = Some ''6f1c'', body = Opaque ''tools''\<rparr>"
proof -
  let ?e = "sdk [''1.0''] (written ''6f1c'')" and ?c = "sdk [] crashed"
  let ?sel = "\<lparr>transport = Some 0, effectiveSessionId = Some ''6f1c'',
               requireInitializeNotice = True\<rparr>"
  let ?s1 = "snd (selectTransport ?c None toolsList (newMCPHttpServer True))"
  have a: "\<not> isPing toolsList" "\<not> isInitializeRequest ?e toolsList" "connect ?e = None"
    "\<not> isInitializeRequest ?c toolsList"
    by (simp_all add: isPing_def toolsList_def sdk_def)
  have st: "selectTransport ?c None toolsList (newMCPHttpServer True) = (Inr ?sel, ?s1)"
    by (simp add: eval_defs)
  have v: "transportsConstructed (log (newMCPHttpServer False)) = 0" "randomUUID ?e = ''6f1c''"
    "threw (handleRequest ?e RealRes (ClientMsg toolsList)) = None"
    "wrote (handleRequest ?e RealRes (ClientMsg toolsList))
       = Some \<lparr>status = 200, sessionHeader = Some ''6f1c'', body = Opaque ''tools''\<rparr>"
    "tried ?e versionsToTry = [''2025-06-18'', ''2024-11-05'', ''1.0'']"
    "clientSees (handleRequest ?c RealRes (ClientMsg toolsList))
       = Some (internalError (Error ''socket hang up''))"
    by (simp_all add: newMCPHttpServer_def transportsConstructed_def sdk_def clientSees_def
        written_def crashed_def tried_def versionsToTry_def accepts_def)
  have p1: "\<not> isPing toolsList \<and> \<not> isInitializeRequest ?c toolsList \<and>
      selectTransport ?c None toolsList (newMCPHttpServer True) = (Inr ?sel, ?s1)"
    using a st by simp
  have p2: "newMCPHttpServer False = run [] (newMCPHttpServer False) \<and> \<not> isPing toolsList \<and>
      \<not> isInitializeRequest ?e toolsList \<and> connect ?e = None \<and>
      handleMCPRequest ?e None (Some toolsList) (newMCPHttpServer False) =
        (fst (handleMCPRequest ?e None (Some toolsList) (newMCPHttpServer False)),
         snd (handleMCPRequest ?e None (Some toolsList) (newMCPHttpServer False)))"
    using a by simp
  note t = non_handshake_call_forwarded [where e = ?c and rq = toolsList and sessionId = None
      and ?s0.0 = "newMCPHttpServer True" and sel = ?sel and ?s1.0 = ?s1]
  note u = non_handshake_call_forwarded [where s = "newMCPHttpServer False" and as = "[]"
      and c = False and rq = toolsList and e = ?e]
  from t [THEN conjunct1, rule_format, OF p1] u [THEN conjunct2, rule_format, OF p2] a st
  show ?thesis by (simp add: v)
qed

text \<open>
  Claim C6. DELETE with an identifier that has a live channel \<open>t\<close>: the router closes
  \<open>t\<close>, removes the binding of that identifier and of no other, and sets the counter to
  \<open>max 0 (connectionCount - 1)\<close>, which in every reachable state is
  \<open>connectionCount - 1\<close>; it answers 200. With no live channel for the identifier,
  which includes a missing and an empty identifier, it answers 404
  \<open>Session not found\<close> and changes nothing.
\<close>

theorem deleteSession_closes_or_not_found:
  "(live (transports s) sessionId = Some t \<and> deleteSession sessionId s = (r, s') \<longrightarrow>
      r = \<lparr>status = 200, sessionHeader = None, body = SessionClosed\<rparr>
    \<and> log s' = log s @ [Close t]
    \<and> live (transports s') sessionId = None
    \<and> (\<forall>j. Some j \<noteq> sessionId \<longrightarrow> map_of (transports s') j = map_of (transports s) j)
    \<and> connectionCount s' = max 0 (connectionCount s - 1)
    \<and> (s = run as (newMCPHttpServer c) \<longrightarrow> connectionCount s' = connectionCount s - 1))
   \<and>
   (live (transports s) sessionId = None \<longrightarrow>
      deleteSession sessionId s =
        (\<lparr>status = 404, sessionHeader = None, body = SessionNotFound\<rparr>, s))"
proof (intro conjI impI allI)
  assume n: "live (transports s) sessionId = None"
  then show "deleteSession sessionId s =
        (\<lparr>status = 404, sessionHeader = None, body = SessionNotFound\<rparr>, s)"
    by (cases sessionId) (simp_all add: deleteSession_def)
next
  assume a: "live (transports s) sessionId = Some t \<and> deleteSession sessionId s = (r, s')"
  then obtain i where i: "sessionId = Some i" "i \<noteq> []" "map_of (transports s) i = Some t"
    by (auto simp: live_def split: option.splits if_splits)
  from a i have s': "s' = s\<lparr>log := log s @ [Close t],
                  transports := AList.delete i (transports s),
                  connectionCount := max 0 (connectionCount s - 1)\<rparr>"
    and r: "r = \<lparr>status = 200, sessionHeader = None, body = SessionClosed\<rparr>"
    by (auto simp: deleteSession_def)
  show "r = \<lparr>status = 200, sessionHeader = None, body = SessionClosed\<rparr>" by (rule r)
  show "log s' = log s @ [Close t]" unfolding s' by simp
  show "live (transports s') sessionId = None"
    unfolding s' using i by (simp add: live_def delete_conv)
  show "connectionCount s' = max 0 (connectionCount s - 1)" unfolding s' by simp
  {
    fix j assume "Some j \<noteq> sessionId"
    with i show "map_of (transports s') j = map_of (transports s) j"
      unfolding s' by (simp add: delete_conv)
  }
  {
    assume "s = run as (newMCPHttpServer c)"
    then have "wellFormed s" by (simp add: reachable_wellFormed)
    then have "int (length (transports s)) \<le> connectionCount s" by (simp add: wellFormed_def)
    moreover from i(3) have "transports s \<noteq> []" by auto
    ultimately have "1 \<le> connectionCount s" by (cases "transports s") auto
    then show "connectionCount s' = connectionCount s - 1" unfolding s' by simp
  }
qed

text \<open>
  The theorem after the handshake of \<open>S9\<close>: deleting \<open>S9\<close>, deleting the unknown
  \<open>S1\<close>, and deleting without identifier.
\<close>

theorem deleteSession_closes_or_not_found_witness:
  "run [Post (sdk [] (written ''S9'')) (Some ''S9'') (Some initializeRequest)]
      (newMCPHttpServer True) = afterHandshake
   \<and> live (transports afterHandshake) (Some ''S9'') = Some 0
   \<and> live (transports afterHandshake) (Some ''S1'') = None
   \<and> live (transports afterHandshake) None = None
   \<and> fst (deleteSession (Some ''S9'') afterHandshake)
      = \<lparr>status = 200, sessionHeader = None, body = SessionClosed\<rparr>
   \<and> log (snd (deleteSession (Some ''S9'') afterHandshake)) = log afterHandshake @ [Close 0]
   \<and> live (transports (snd (deleteSession (Some ''S9'') afterHandshake))) (Some ''S9'') = None
   \<and> connectionCount (snd (deleteSession (Some ''S9'') afterHandshake))
      = connectionCount afterHandshake - 1
   \<and> connectionCount (snd (deleteSession (Some ''S9'') afterHandshake)) = 0
   \<and> deleteSession (Some ''S1'') afterHandshake
      = (\<lparr>status = 404, sessionHeader = None, body = SessionNotFound\<rparr>, afterHandshake)
   \<and> deleteSession None afterHandshake
      = (\<lparr>status = 404, sessionHeader = None, body = SessionNotFound\<rparr>, afterHandshake)"
proof -
  have l: "live (transports afterHandshake) (Some ''S9'') = Some 0"
    "live (transports afterHandshake) (Some ''S1'') = None"
    "live (transports afterHandshake) None = None"
    by (simp_all add: live_def afterHandshake_eval)
  have p: "live (transports afterHandshake) (Some ''S9'') = Some 0 \<and>
      deleteSession (Some ''S9'') afterHandshake =
        (fst (deleteSession (Some ''S9'') afterHandshake),
         snd (deleteSession (Some ''S9'') afterHandshake))"
    using l by simp
  note a = deleteSession_closes_or_not_found [where s = afterHandshake and sessionId = "Some ''S9''" and t = 0
      and as = "[Post (sdk [] (written ''S9'')) (Some ''S9'') (Some initializeRequest)]" and c = True,
      THEN conjunct1, rule_format, OF p]
  note b = deleteSession_closes_or_not_found [where s = afterHandshake and sessionId = "Some ''S1''",
      THEN conjunct2, rule_format, OF l(2)]
  note c = deleteSession_closes_or_not_found [where s = afterHandshake and sessionId = None,
      THEN conjunct2, rule_format, OF l(3)]
  have r: "run [Post (sdk [] (written ''S9'')) (Some ''S9'') (Some initializeRequest)]
      (newMCPHttpServer True) = afterHandshake"
    by (simp only: afterHandshake_def)
  from a r [symmetric] have d: "connectionCount (snd (deleteSession (Some ''S9'') afterHandshake))
      = connectionCount afterHandshake - 1" by blast
  from a b c l r d show ?thesis
    by (simp add: afterHandshake_eval)
qed

section \<open>The claims about the worker manager\<close>

text \<open>
  Claim C7 fails on the code. With one pending task of session \<open>A\<close> and one of
  session \<open>B\<close>, an error of the worker of \<open>A\<close> rejects the promise of the task of
  \<open>B\<close>: \<open>handleWorkerError\<close> calls the callback of every pending task, whichever
  session submitted it.
\<close>

theorem worker_error_fails_other_session:
  "taskSession taskB = ''B''
   \<and> promises twoSessions ! 1 = Pending
   \<and> promises (handleWorkerError ''A'' ''boom'' twoSessions) ! 1 = Rejected ''Worker error: boom''"
  by (simp add: twoSessions_eval) (simp add: handleWorkerError_def twoSessions_eval callback_def settle_def taskB_def)

text \<open>
  Claim C8 fails on the code. \<open>handleWorkerError\<close> calls the stored callbacks and
  leaves them in \<open>pendingTasks\<close>, so the result that the worker of \<open>B\<close> posts
  afterwards for its task finds the callback again: the callback of that task is
  invoked twice, and its promise stays rejected although the task succeeded.
\<close>

theorem callback_invoked_twice:
  "invocations 1 (handleWorkerMessage ''B'' doneB (handleWorkerError ''A'' ''boom'' twoSessions)) = 2
   \<and> promises (handleWorkerMessage ''B'' doneB (handleWorkerError ''A'' ''boom'' twoSessions)) ! 1
       = Rejected ''Worker error: boom''"
  by (simp add: handleWorkerError_def handleWorkerMessage_def twoSessions_eval callback_def
      settle_def invocations_def doneB_def)




section \<open>The live-connection counter\<close>

text \<open>
  Claim C10. The live-connection counter is never negative: after any sequence of HTTP
  calls (which bind channels), explicit session deletes, transport close and error
  notifications, session evictions, starts and stops of the server, applied to a
  freshly constructed server in either mode, \<open>connectionCount\<close> is at least zero.
  Every decrement is \<open>Math.max(0, connectionCount - 1)\<close>, every bind adds one, and
  \<open>stop\<close> resets the counter to zero.
\<close>

theorem connectionCount_never_negative:
  "0 \<le> connectionCount (run as (newMCPHttpServer c))"
  by (rule run_nonneg) (simp add: newMCPHttpServer_def)

end
